theory Spec2Isabelle
  imports Main "HOL-Library.Sublist"
begin

section \<open>Decoded server payloads\<close>

text \<open>
  The HTTP client hands every handler a decoded JSON value typed \<^verbatim>\<open>any\<close>. Numbers are
  modelled as integers (JSON carries no NaN; fractions and rounding are outside the model).
  An object is the list of its own properties in enumeration order; a property read takes the
  first entry of a name.
\<close>

datatype jsval =
    JUndefined
  | JNull
  | JBool bool
  | JNum int
  | JStr string
  | JArr "jsval list"
  | JObj "(string \<times> jsval) list"

text \<open>What a handler can throw.\<close>

datatype exn =
    TypeError
  | SyntaxError
  | Error string

fun truthy :: "jsval \<Rightarrow> bool" where
  "truthy JUndefined = False"
| "truthy JNull = False"
| "truthy (JBool b) = b"
| "truthy (JNum n) = (n \<noteq> 0)"
| "truthy (JStr s) = (s \<noteq> [])"
| "truthy (JArr xs) = True"
| "truthy (JObj ps) = True"

text \<open>\<^verbatim>\<open>null\<close> and \<^verbatim>\<open>undefined\<close>, the two values a property cannot be read from.\<close>

fun nullish :: "jsval \<Rightarrow> bool" where
  "nullish JUndefined = True"
| "nullish JNull = True"
| "nullish v = False"

text \<open>\<^verbatim>\<open>a || b\<close>\<close>

definition js_or :: "jsval \<Rightarrow> jsval \<Rightarrow> jsval" where
  "js_or a b = (if truthy a then a else b)"

text \<open>\<^verbatim>\<open>Array.isArray(v)\<close>, and the elements of a value known to be an array.\<close>

fun isArray :: "jsval \<Rightarrow> bool" where
  "isArray (JArr xs) = True"
| "isArray v = False"

fun elems :: "jsval \<Rightarrow> jsval list" where
  "elems (JArr xs) = xs"
| "elems v = []"

text \<open>\<^verbatim>\<open>typeof v === 'object'\<close> and \<^verbatim>\<open>typeof v === 'number'\<close>\<close>

fun typeof_object :: "jsval \<Rightarrow> bool" where
  "typeof_object JNull = True"
| "typeof_object (JArr xs) = True"
| "typeof_object (JObj ps) = True"
| "typeof_object v = False"

fun typeof_number :: "jsval \<Rightarrow> bool" where
  "typeof_number (JNum n) = True"
| "typeof_number v = False"

text \<open>
  \<^verbatim>\<open>v.k\<close> for the property names the handlers read (none of them is a built-in property of
  arrays or strings): reading a property of \<^verbatim>\<open>null\<close> or \<^verbatim>\<open>undefined\<close> throws a TypeError,
  an absent property is \<^verbatim>\<open>undefined\<close>.
\<close>

fun read_prop :: "jsval \<Rightarrow> string \<Rightarrow> exn + jsval" where
  "read_prop JUndefined k = Inl TypeError"
| "read_prop JNull k = Inl TypeError"
| "read_prop (JObj ps) k = Inr (case map_of ps k of None \<Rightarrow> JUndefined | Some v \<Rightarrow> v)"
| "read_prop v k = Inr JUndefined"

text \<open>
  A property read guarded by a truthiness test of the object (\<^verbatim>\<open>v && v.k\<close>) or made on a
  value already known to be an object: it cannot throw.
\<close>

fun peek_prop :: "jsval \<Rightarrow> string \<Rightarrow> jsval" where
  "peek_prop (JObj ps) k = (case map_of ps k of None \<Rightarrow> JUndefined | Some v \<Rightarrow> v)"
| "peek_prop v k = JUndefined"

text \<open>\<^verbatim>\<open>Object.keys(v)\<close> and \<^verbatim>\<open>Object.values(v)\<close> of a non-array object.\<close>

fun Object_keys :: "jsval \<Rightarrow> string list" where
  "Object_keys (JObj ps) = map fst ps"
| "Object_keys v = []"

fun Object_values :: "jsval \<Rightarrow> jsval list" where
  "Object_values (JObj ps) = map snd ps"
| "Object_values v = []"

text \<open>
  \<^verbatim>\<open>a === b\<close> between values of two separately decoded payloads: primitives compare by value,
  two objects or arrays are never the same reference.
\<close>

fun strict_eq :: "jsval \<Rightarrow> jsval \<Rightarrow> bool" where
  "strict_eq JUndefined JUndefined = True"
| "strict_eq JNull JNull = True"
| "strict_eq (JBool a) (JBool b) = (a = b)"
| "strict_eq (JNum a) (JNum b) = (a = b)"
| "strict_eq (JStr a) (JStr b) = (a = b)"
| "strict_eq a b = False"

section \<open>Envelope handling at the call sites\<close>

text \<open>
  \<^verbatim>\<open>RecordsService.getRecords\<close>, the first half of the \<^verbatim>\<open>map\<close> operator: a bare array, then
  \<^verbatim>\<open>$values\<close>, then the values of a non-empty object.
\<close>

definition RecordsService_envelope :: "jsval \<Rightarrow> jsval list" where
  "RecordsService_envelope response =
     (if isArray response then elems response
      else if truthy response \<and> typeof_object response then
        (if isArray (peek_prop response ''$values'') then elems (peek_prop response ''$values'')
         else if length (Object_keys response) > 0 then Object_values response
         else [])
      else [])"

text \<open>
  \<^verbatim>\<open>RecordsComponent.getRecords\<close>, the record list: a bare array, then \<^verbatim>\<open>$values\<close>, then
  \<^verbatim>\<open>data\<close>.
\<close>

definition getRecords_envelope :: "jsval \<Rightarrow> jsval list" where
  "getRecords_envelope data =
     (if isArray data then elems data
      else if truthy data \<and> isArray (peek_prop data ''$values'') then elems (peek_prop data ''$values'')
      else if truthy data \<and> isArray (peek_prop data ''data'') then elems (peek_prop data ''data'')
      else [])"

text \<open>
  \<^verbatim>\<open>RecordsComponent.getRecords\<close>, the group list fetched for the join: a bare array, then
  \<^verbatim>\<open>$values\<close>.
\<close>

definition getRecords_groups_envelope :: "jsval \<Rightarrow> jsval list" where
  "getRecords_groups_envelope groupsResponse =
     (if isArray groupsResponse then elems groupsResponse
      else if truthy groupsResponse \<and> isArray (peek_prop groupsResponse ''$values'')
        then elems (peek_prop groupsResponse ''$values'')
      else [])"

text \<open>
  \<^verbatim>\<open>RecordsComponent.getGroups\<close>: a bare array, then \<^verbatim>\<open>$values\<close>, then \<^verbatim>\<open>data\<close>, else a
  console warning and the empty list. The property reads are not guarded, so they throw on
  \<^verbatim>\<open>null\<close> and \<^verbatim>\<open>undefined\<close>.
\<close>

definition getGroups_envelope :: "jsval \<Rightarrow> exn + jsval list" where
  "getGroups_envelope response =
     (if isArray response then Inr (elems response)
      else (case read_prop response ''$values'' of
        Inl e \<Rightarrow> Inl e
      | Inr values \<Rightarrow>
          (if isArray values then Inr (elems values)
           else (case read_prop response ''data'' of
             Inl e \<Rightarrow> Inl e
           | Inr d \<Rightarrow> (if isArray d then Inr (elems d) else Inr [])))))"

section \<open>The view model of a record\<close>

text \<open>
  A field of an object at run time: absent (\<^verbatim>\<open>undefined\<close>), \<^verbatim>\<open>null\<close>, or a value of the
  type its TypeScript declaration gives it.
\<close>

datatype 'a nullable = Undefined | Null | Val 'a

text \<open>Truthiness of a number, string or boolean field, and \<^verbatim>\<open>x || d\<close> on each.\<close>

fun truthy_num :: "int nullable \<Rightarrow> bool" where
  "truthy_num (Val n) = (n \<noteq> 0)"
| "truthy_num v = False"

fun truthy_str :: "string nullable \<Rightarrow> bool" where
  "truthy_str (Val s) = (s \<noteq> [])"
| "truthy_str v = False"

fun truthy_bool :: "bool nullable \<Rightarrow> bool" where
  "truthy_bool (Val b) = b"
| "truthy_bool v = False"

fun or_num :: "int nullable \<Rightarrow> int \<Rightarrow> int" where
  "or_num (Val n) d = (if n \<noteq> 0 then n else d)"
| "or_num v d = d"

fun or_str :: "string nullable \<Rightarrow> string \<Rightarrow> string" where
  "or_str (Val s) d = (if s \<noteq> [] then s else d)"
| "or_str v d = d"

text \<open>The photo of a record: a \<^verbatim>\<open>File\<close> chosen in the form, or the string the API sent.\<close>

datatype photo_val = PhotoFile string | PhotoText string

text \<open>
  Modelled from the spec: the interface \<^verbatim>\<open>IRecord\<close> is declared in
  \<^verbatim>\<open>ecommerce.interface\<close>, which is not among the sources. Its fields are those of the draft
  literal of \<^verbatim>\<open>RecordsComponent\<close> and the two view-only fields \<^verbatim>\<open>inCart\<close> and \<^verbatim>\<open>amount\<close>
  of section 3 of the spec. Objects that come from the API can lack any of them.
\<close>

record IRecord =
  idRecord :: "int nullable"
  titleRecord :: "string nullable"
  yearOfPublication :: "int nullable"
  imageRecord :: "string nullable"
  photo :: "photo_val nullable"
  photoName :: "string nullable"
  price :: "int nullable"
  stock :: "int nullable"
  discontinued :: "bool nullable"
  groupId :: "int nullable"
  groupName :: "string nullable"
  nameGroup :: "string nullable"
  inCart :: "bool nullable"
  amount :: "int nullable"

text \<open>
  Reading a decoded value at a declared type. \<^const>\<open>None\<close> when the value has another type.
\<close>

fun as_num :: "jsval \<Rightarrow> int nullable option" where
  "as_num JUndefined = Some Undefined"
| "as_num JNull = Some Null"
| "as_num (JNum n) = Some (Val n)"
| "as_num v = None"

fun as_str :: "jsval \<Rightarrow> string nullable option" where
  "as_str JUndefined = Some Undefined"
| "as_str JNull = Some Null"
| "as_str (JStr s) = Some (Val s)"
| "as_str v = None"

fun as_bool :: "jsval \<Rightarrow> bool nullable option" where
  "as_bool JUndefined = Some Undefined"
| "as_bool JNull = Some Null"
| "as_bool (JBool b) = Some (Val b)"
| "as_bool v = None"

fun as_photo :: "jsval \<Rightarrow> photo_val nullable option" where
  "as_photo JUndefined = Some Undefined"
| "as_photo JNull = Some Null"
| "as_photo (JStr s) = Some (Val (PhotoText s))"
| "as_photo v = None"

text \<open>
  An object of a decoded payload as the handlers typed \<^verbatim>\<open>IRecord\<close> see it: each declared field
  is read from the property of its name. The reading exists when every such property has its
  declared type; properties outside the interface are not seen by those handlers.
\<close>

definition as_IRecord :: "jsval \<Rightarrow> IRecord option" where
  "as_IRecord v =
     (case v of
        JObj ps \<Rightarrow>
          Option.bind (as_num (peek_prop v ''idRecord'')) (\<lambda>f1.
          Option.bind (as_str (peek_prop v ''titleRecord'')) (\<lambda>f2.
          Option.bind (as_num (peek_prop v ''yearOfPublication'')) (\<lambda>f3.
          Option.bind (as_str (peek_prop v ''imageRecord'')) (\<lambda>f4.
          Option.bind (as_photo (peek_prop v ''photo'')) (\<lambda>f5.
          Option.bind (as_str (peek_prop v ''photoName'')) (\<lambda>f6.
          Option.bind (as_num (peek_prop v ''price'')) (\<lambda>f7.
          Option.bind (as_num (peek_prop v ''stock'')) (\<lambda>f8.
          Option.bind (as_bool (peek_prop v ''discontinued'')) (\<lambda>f9.
          Option.bind (as_num (peek_prop v ''groupId'')) (\<lambda>f10.
          Option.bind (as_str (peek_prop v ''groupName'')) (\<lambda>f11.
          Option.bind (as_str (peek_prop v ''nameGroup'')) (\<lambda>f12.
          Option.bind (as_bool (peek_prop v ''inCart'')) (\<lambda>f13.
          Option.bind (as_num (peek_prop v ''amount'')) (\<lambda>f14.
            Some \<lparr>idRecord = f1, titleRecord = f2, yearOfPublication = f3, imageRecord = f4,
              photo = f5, photoName = f6, price = f7, stock = f8, discontinued = f9,
              groupId = f10, groupName = f11, nameGroup = f12, inCart = f13,
              amount = f14\<rparr>))))))))))))))
      | _ \<Rightarrow> None)"

fun as_IRecords :: "jsval list \<Rightarrow> IRecord list option" where
  "as_IRecords [] = Some []"
| "as_IRecords (v # vs) =
     (case as_IRecord v of
        None \<Rightarrow> None
      | Some r \<Rightarrow> (case as_IRecords vs of None \<Rightarrow> None | Some rs \<Rightarrow> Some (r # rs)))"

section \<open>Strings\<close>

text \<open>
  \<^verbatim>\<open>String.prototype.toLowerCase\<close>, \<^verbatim>\<open>trim\<close> and \<^verbatim>\<open>includes\<close>, and \<^verbatim>\<open>Number.prototype.toString\<close> of
  an integer, on ASCII text (a character is a byte here; letters outside ASCII are left as they
  are, and the exponent notation of very large numbers is outside the model).
\<close>

definition lower_char :: "char \<Rightarrow> char" where
  "lower_char c = (let n = (of_char c :: nat) in if 65 \<le> n \<and> n \<le> 90 then char_of (n + 32) else c)"

definition toLowerCase :: "string \<Rightarrow> string" where
  "toLowerCase s = map lower_char s"

definition is_space :: "char \<Rightarrow> bool" where
  "is_space c = ((of_char c :: nat) \<in> {9, 10, 11, 12, 13, 32})"

definition trim :: "string \<Rightarrow> string" where
  "trim s = rev (dropWhile is_space (rev (dropWhile is_space s)))"

definition str_includes :: "string \<Rightarrow> string \<Rightarrow> bool" where
  "str_includes s t = sublist t s"

fun show_nat :: "nat \<Rightarrow> string" where
  "show_nat n = (if n < 10 then [char_of (48 + n)] else show_nat (n div 10) @ [char_of (48 + n mod 10)])"

declare show_nat.simps [simp del]

definition show_int :: "int \<Rightarrow> string" where
  "show_int i = (if i < 0 then CHR ''-'' # show_nat (nat (- i)) else show_nat (nat i))"

fun join :: "string \<Rightarrow> string list \<Rightarrow> string" where
  "join sep [] = []"
| "join sep [x] = x"
| "join sep (x # y # ys) = x @ sep @ join sep (y # ys)"

section \<open>RecordsService\<close>

text \<open>
  The service's collaborators that are not among the sources enter as parameters: the base
  URL of \<^verbatim>\<open>environment.apiUrl.cdService\<close> and the token \<^verbatim>\<open>authGuard.getToken()\<close> returns, as it
  prints in a template string.
\<close>

record RecordsService =
  baseUrl :: string
  token :: string

datatype form_value = Text string | Blob string

record http_request =
  http_method :: string
  url :: string
  headers :: "(string \<times> string) list"
  form :: "(string \<times> form_value) list"

text \<open>
  An error as a subscriber receives it: an \<^verbatim>\<open>HttpErrorResponse\<close> with a status, a decoded
  body and a message, or a plain \<^verbatim>\<open>Error\<close> (no status, no body). The body is absent, a
  string, or an object with the optional properties \<^verbatim>\<open>errors\<close> (a list of messages per
  field), \<^verbatim>\<open>title\<close> and \<^verbatim>\<open>message\<close>.
\<close>

datatype error_body =
    BodyNone
  | BodyText string
  | BodyObject (body_errors: "(string \<times> string list) list option")
      (body_title: "string nullable") (body_message: "string nullable")

record HttpError =
  status :: "int nullable"
  error :: error_body
  message :: "string nullable"

text \<open>Calls made on \<^verbatim>\<open>StockService\<close> with arguments typed \<^verbatim>\<open>any\<close>.\<close>

datatype stock_call = updateStock jsval jsval | notifyStockUpdateAny jsval jsval

text \<open>The event of the stock hub.\<close>

record StockUpdate =
  recordId :: int
  newStock :: int

text \<open>
  Modelled from the spec: \<^verbatim>\<open>StockService\<close> is not among the sources. By sections 3 and 4.2
  of the spec, \<^verbatim>\<open>notifyStockUpdate(recordId, newStock)\<close> publishes the event
  \<^verbatim>\<open>(recordId, newStock)\<close> to every subscriber of \<^verbatim>\<open>stockUpdate$\<close>, unchanged.
\<close>

definition notifyStockUpdate :: "int \<Rightarrow> int \<Rightarrow> StockUpdate" where
  "notifyStockUpdate idRec amt = \<lparr>recordId = idRec, newStock = amt\<rparr>"

definition getHeaders :: "RecordsService \<Rightarrow> (string \<times> string) list" where
  "getHeaders svc =
     [(''Content-Type'', ''application/json''), (''Authorization'', ''Bearer '' @ token svc)]"

definition headers_delete :: "string \<Rightarrow> (string \<times> string) list \<Rightarrow> (string \<times> string) list" where
  "headers_delete name hs = filter (\<lambda>h. fst h \<noteq> name) hs"

text \<open>
  \<^verbatim>\<open>{...record, stock: stock}\<close> on a value typed \<^verbatim>\<open>any\<close>: the own properties of the value,
  then \<^verbatim>\<open>stock\<close>. An array spreads into its indices, a string into its characters, any other
  primitive into nothing.
\<close>

fun indexed :: "nat \<Rightarrow> jsval list \<Rightarrow> (string \<times> jsval) list" where
  "indexed i [] = []"
| "indexed i (x # xs) = (show_nat i, x) # indexed (Suc i) xs"

fun spread :: "jsval \<Rightarrow> (string \<times> jsval) list" where
  "spread (JObj ps) = ps"
| "spread (JArr xs) = indexed 0 xs"
| "spread (JStr s) = indexed 0 (map (\<lambda>c. JStr [c]) s)"
| "spread v = []"

fun set_prop :: "string \<Rightarrow> jsval \<Rightarrow> (string \<times> jsval) list \<Rightarrow> (string \<times> jsval) list" where
  "set_prop k v [] = [(k, v)]"
| "set_prop k v (p # ps) = (if fst p = k then (k, v) # ps else p # set_prop k v ps)"

text \<open>
  \<^verbatim>\<open>getRecords\<close>, the second half of the \<^verbatim>\<open>map\<close> operator: every extracted value becomes a
  fresh object with a numeric stock, and its stock is handed to the stock service. Reading
  \<^verbatim>\<open>record.stock\<close> throws when the value is \<^verbatim>\<open>null\<close> or \<^verbatim>\<open>undefined\<close>; the calls made before
  the throw stay made.
\<close>

fun getRecords_map :: "jsval list \<Rightarrow> stock_call list \<times> (exn + jsval list)" where
  "getRecords_map [] = ([], Inr [])"
| "getRecords_map (record # rest) =
     (case read_prop record ''stock'' of
        Inl e \<Rightarrow> ([], Inl e)
      | Inr s \<Rightarrow>
          (let stk = (if typeof_number s then s else JNum 0);
               call = updateStock (peek_prop record ''idRecord'') stk;
               out = JObj (set_prop ''stock'' stk (spread record))
           in (case getRecords_map rest of
                (calls, Inl e) \<Rightarrow> (call # calls, Inl e)
              | (calls, Inr outs) \<Rightarrow> (call # calls, Inr (out # outs)))))"

text \<open>The \<^verbatim>\<open>tap\<close> operator: one notification per emitted record.\<close>

definition getRecords_tap :: "jsval list \<Rightarrow> stock_call list" where
  "getRecords_tap recs =
     map (\<lambda>record. notifyStockUpdateAny (peek_prop record ''idRecord'')
            (js_or (peek_prop record ''stock'') (JNum 0))) recs"

text \<open>
  The whole pipeline of \<^verbatim>\<open>getRecords\<close> on the outcome of the HTTP call. \<^verbatim>\<open>catchError\<close> turns
  a transport error, and an exception of the operators before it, into the emission of an
  empty array: the observable never errors.
\<close>

definition RecordsService_getRecords :: "HttpError + jsval \<Rightarrow> stock_call list \<times> jsval" where
  "RecordsService_getRecords outcome =
     (case outcome of
        Inl err \<Rightarrow> ([], JArr [])
      | Inr response \<Rightarrow>
          (case getRecords_map (RecordsService_envelope response) of
             (calls, Inl e) \<Rightarrow> (calls, JArr [])
           | (calls, Inr recs) \<Rightarrow> (calls @ getRecords_tap recs, JArr recs)))"

text \<open>
  \<^verbatim>\<open>addRecord\<close> and \<^verbatim>\<open>updateRecord\<close>, the synchronous part: the guard on the group, then the
  multipart request that the returned observable sends when it is subscribed.
\<close>

definition formData :: "IRecord \<Rightarrow> (string \<times> form_value) list" where
  "formData record =
     [(''TitleRecord'', Text (or_str (titleRecord record) [])),
      (''Price'', Text (show_int (or_num (price record) 0))),
      (''Stock'', Text (show_int (or_num (stock record) 0))),
      (''Discontinued'', Text (if truthy_bool (discontinued record) then ''true'' else ''false'')),
      (''YearOfPublication'',
         Text (case yearOfPublication record of Val y \<Rightarrow> show_int y | _ \<Rightarrow> [])),
      (''GroupId'', Text (case groupId record of Val g \<Rightarrow> show_int g | _ \<Rightarrow> []))]
     @ (case photo record of Val (PhotoFile f) \<Rightarrow> [(''Photo'', Blob f)] | _ \<Rightarrow> [])"

definition addRecord :: "RecordsService \<Rightarrow> IRecord \<Rightarrow> exn + http_request" where
  "addRecord svc record =
     (if \<not> truthy_num (groupId record) then Inl (Error ''Group is required'')
      else Inr \<lparr>http_method = ''POST'', url = baseUrl svc @ ''records'',
                headers = headers_delete ''Content-Type'' (getHeaders svc),
                form = formData record\<rparr>)"

definition updateRecord :: "RecordsService \<Rightarrow> IRecord \<Rightarrow> exn + http_request" where
  "updateRecord svc record =
     (if \<not> truthy_num (groupId record) then Inl (Error ''Group is required'')
      else (case idRecord record of
        Val i \<Rightarrow>
          Inr \<lparr>http_method = ''PUT'', url = baseUrl svc @ ''records/'' @ show_int i,
                headers = headers_delete ''Content-Type'' (getHeaders svc),
                form = (''IdRecord'', Text (show_int i)) # formData record\<rparr>
      | _ \<Rightarrow> Inl TypeError))"

text \<open>
  \<^verbatim>\<open>decrementStock\<close> and \<^verbatim>\<open>incrementStock\<close>: the request, and what the pipeline publishes and
  emits on the outcome of the call (\<^verbatim>\<open>tap\<close> on success, \<^verbatim>\<open>catchError\<close> rethrows).
\<close>

definition updateStock_request :: "RecordsService \<Rightarrow> int \<Rightarrow> int \<Rightarrow> http_request" where
  "updateStock_request svc idRec amt =
     \<lparr>http_method = ''PUT'',
      url = baseUrl svc @ ''records/'' @ show_int idRec @ ''/updateStock/'' @ show_int amt,
      headers = getHeaders svc, form = []\<rparr>"

definition decrementStock :: "RecordsService \<Rightarrow> int \<Rightarrow> http_request" where
  "decrementStock svc idRec = (let amt = - 1 in updateStock_request svc idRec amt)"

definition decrementStock_outcome ::
  "int \<Rightarrow> HttpError + jsval \<Rightarrow> StockUpdate list \<times> (HttpError + jsval)" where
  "decrementStock_outcome idRec outcome =
     (let amt = - 1 in
      (case outcome of
        Inr v \<Rightarrow> ([notifyStockUpdate idRec amt], Inr v)
      | Inl err \<Rightarrow> ([], Inl err)))"

definition incrementStock :: "RecordsService \<Rightarrow> int \<Rightarrow> http_request" where
  "incrementStock svc idRec = (let amt = 1 in updateStock_request svc idRec amt)"

definition incrementStock_outcome ::
  "int \<Rightarrow> HttpError + jsval \<Rightarrow> StockUpdate list \<times> (HttpError + jsval)" where
  "incrementStock_outcome idRec outcome =
     (let amt = 1 in
      (case outcome of
        Inr v \<Rightarrow> ([notifyStockUpdate idRec amt], Inr v)
      | Inl err \<Rightarrow> ([], Inl err)))"

section \<open>RecordsComponent\<close>

text \<open>
  The claims about the view speak of references: which array a field holds, which object an
  array holds at an index. Objects and arrays therefore live in a store and are named by their
  address, the index at which they were allocated; allocation appends. \<^verbatim>\<open>this.records\<close> and
  \<^verbatim>\<open>this.filteredRecords\<close> hold the address of an array, an array holds addresses of records.

  The load handles records typed \<^verbatim>\<open>any\<close> and stores them as they are, whatever they hold;
  every other handler takes them at the type \<^verbatim>\<open>IRecord\<close>. The state of the component is
  therefore given over the type of the objects in its store: decoded values for the load,
  \<^verbatim>\<open>IRecord\<close> for the handlers typed so.
\<close>

record 'obj component =
  cells :: "'obj list"
  arrays :: "nat list list"
  records :: nat
  filteredRecords :: nat
  visibleError :: bool
  errorMessage :: string
  searchText :: string
  record_draft :: IRecord
  groups :: "jsval list"

type_synonym RecordsComponent = "IRecord component"

text \<open>
  The store of decoded values read at \<^verbatim>\<open>IRecord\<close>, when every object in it has such a reading.
\<close>

definition typed_view :: "jsval component \<Rightarrow> RecordsComponent option" where
  "typed_view rv =
     map_option
       (\<lambda>cs. \<lparr>cells = cs, arrays = arrays rv, records = records rv,
               filteredRecords = filteredRecords rv, visibleError = visibleError rv,
               errorMessage = errorMessage rv, searchText = searchText rv,
               record_draft = record_draft rv, groups = groups rv\<rparr>)
       (as_IRecords (cells rv))"

text \<open>Every address held is allocated: there is no dangling reference in the program.\<close>

definition wf :: "'obj component \<Rightarrow> bool" where
  "wf st \<longleftrightarrow>
     records st < length (arrays st) \<and> filteredRecords st < length (arrays st) \<and>
     list_all (\<lambda>a. list_all (\<lambda>r. r < length (cells st)) a) (arrays st)"

text \<open>What a method asks of the injected services.\<close>

datatype call =
    RecordsService_getRecords_call
  | GroupsService_getGroups_call
  | StockService_call stock_call
  | CartService_addToCart_call nat
  | CartService_removeFromCart_call nat
  | Http_call http_request

text \<open>The draft literal of the field initialiser and of \<^verbatim>\<open>resetForm\<close>.\<close>

definition emptyRecord :: IRecord where
  "emptyRecord =
     \<lparr>idRecord = Val 0, titleRecord = Val [], yearOfPublication = Null, imageRecord = Null,
      photo = Null, photoName = Null, price = Val 0, stock = Val 0, discontinued = Val False,
      groupId = Null, groupName = Val [], nameGroup = Val [], inCart = Undefined,
      amount = Undefined\<rparr>"

definition initial :: "'obj component" where
  "initial =
     \<lparr>cells = [], arrays = [[], []], records = 0, filteredRecords = 1, visibleError = False,
      errorMessage = [], searchText = [], record_draft = emptyRecord, groups = []\<rparr>"

definition resetForm :: "'obj component \<Rightarrow> 'obj component" where
  "resetForm st = st\<lparr>record_draft := emptyRecord\<rparr>"

subsection \<open>The subscription to the stock hub\<close>

text \<open>
  \<^verbatim>\<open>xs.map(record => record.idRecord === recordId ? {...record, stock: newStock} : record)\<close>:
  the store after the call and the new array. A matching record is copied into a fresh object,
  any other keeps its address.
\<close>

fun map_stock :: "int \<Rightarrow> int \<Rightarrow> IRecord list \<Rightarrow> nat list \<Rightarrow> IRecord list \<times> nat list" where
  "map_stock rid ns cs [] = (cs, [])"
| "map_stock rid ns cs (r # rs) =
     (if idRecord (cs ! r) = Val rid
      then (case map_stock rid ns (cs @ [(cs ! r)\<lparr>stock := Val ns\<rparr>]) rs of
              (cs', out) \<Rightarrow> (cs', length cs # out))
      else (case map_stock rid ns cs rs of (cs', out) \<Rightarrow> (cs', r # out)))"

definition stockUpdate_subscriber :: "StockUpdate option \<Rightarrow> RecordsComponent \<Rightarrow> RecordsComponent" where
  "stockUpdate_subscriber update st =
     (case update of
        None \<Rightarrow> st
      | Some u \<Rightarrow>
          (case map_stock (recordId u) (newStock u) (cells st) (arrays st ! records st) of
             (cs1, out1) \<Rightarrow>
               (case map_stock (recordId u) (newStock u) cs1 (arrays st ! filteredRecords st) of
                  (cs2, out2) \<Rightarrow>
                    st\<lparr>cells := cs2, arrays := arrays st @ [out1, out2],
                       records := length (arrays st),
                       filteredRecords := Suc (length (arrays st))\<rparr>)))"

subsection \<open>The subscription to the cart hub\<close>

text \<open>
  Modelled from the spec: the items \<^verbatim>\<open>cart$\<close> emits are declared with \<^verbatim>\<open>CartService\<close>, which is
  not among the sources; by section 3 of the spec a cart line is a pair of a record identifier
  and an amount.
\<close>

datatype cart_item = CartItem (item_idRecord: "int nullable") (item_amount: "int nullable")

definition cart_update :: "cart_item list \<Rightarrow> IRecord \<Rightarrow> IRecord" where
  "cart_update cartItems record =
     (let cartItem = find (\<lambda>item. item_idRecord item = idRecord record) cartItems
      in record\<lparr>inCart := Val (cartItem \<noteq> None),
                amount := Val (case cartItem of Some item \<Rightarrow> or_num (item_amount item) 0
                               | None \<Rightarrow> 0)\<rparr>)"

text \<open>\<^verbatim>\<open>this.records.forEach\<close>: every record of the base list is written in place.\<close>

fun cart_forEach :: "cart_item list \<Rightarrow> IRecord list \<Rightarrow> nat list \<Rightarrow> IRecord list" where
  "cart_forEach cartItems cs [] = cs"
| "cart_forEach cartItems cs (r # rs) =
     cart_forEach cartItems (cs[r := cart_update cartItems (cs ! r)]) rs"

text \<open>\<^verbatim>\<open>this.filteredRecords = [...this.records]\<close>: a fresh array with the base list's contents.\<close>

definition republish :: "RecordsComponent \<Rightarrow> RecordsComponent" where
  "republish st =
     st\<lparr>arrays := arrays st @ [arrays st ! records st], filteredRecords := length (arrays st)\<rparr>"

definition cart_subscriber :: "cart_item list \<Rightarrow> RecordsComponent \<Rightarrow> RecordsComponent" where
  "cart_subscriber cartItems st =
     republish (st\<lparr>cells := cart_forEach cartItems (cells st) (arrays st ! records st)\<rparr>)"

subsection \<open>Search\<close>

definition record_matches :: "string \<Rightarrow> IRecord \<Rightarrow> bool" where
  "record_matches searchTerm record \<longleftrightarrow>
     (case titleRecord record of Val t \<Rightarrow> str_includes (toLowerCase t) searchTerm | _ \<Rightarrow> False) \<or>
     (case groupName record of Val g \<Rightarrow> str_includes (toLowerCase g) searchTerm | _ \<Rightarrow> False) \<or>
     (case yearOfPublication record of Val y \<Rightarrow> str_includes (show_int y) searchTerm
      | _ \<Rightarrow> False)"

definition filterRecords :: "RecordsComponent \<Rightarrow> RecordsComponent" where
  "filterRecords st =
     (if trim (searchText st) = [] then republish st
      else (let searchTerm = toLowerCase (searchText st)
            in st\<lparr>arrays := arrays st @
                    [filter (\<lambda>r. record_matches searchTerm (cells st ! r)) (arrays st ! records st)],
                  filteredRecords := length (arrays st)\<rparr>))"

subsection \<open>Errors\<close>

definition controlError_message :: "HttpError \<Rightarrow> string" where
  "controlError_message err =
     (if status err = Val 400 then
        (case error err of
           BodyObject errs title msg \<Rightarrow>
             (case errs of
                Some es \<Rightarrow> join [CHR 0x0A] (concat (map snd es))
              | None \<Rightarrow>
                  (if truthy_str title then or_str title []
                   else ''Invalid data. Please check your input and try again.''))
         | _ \<Rightarrow> ''Invalid data. Please check your input and try again.'')
      else if status err = Val 401 then ''Unauthorized. Please log in again.''
      else if status err = Val 403 then ''You do not have permission to perform this action.''
      else if status err = Val 404 then ''The requested resource was not found.''
      else if (case status err of Val n \<Rightarrow> n \<ge> 500 | _ \<Rightarrow> False)
        then ''A server error occurred. Please try again later.''
      else
        (case error err of
           BodyObject errs title (Val m) \<Rightarrow>
             (if m \<noteq> [] then m
              else if truthy_str (message err) then or_str (message err) []
              else ''An unexpected error occurred. Please try again.'')
         | BodyText s \<Rightarrow> s
         | _ \<Rightarrow>
             (if truthy_str (message err) then or_str (message err) []
              else ''An unexpected error occurred. Please try again.'')))"

definition controlError :: "HttpError \<Rightarrow> 'obj component \<Rightarrow> 'obj component" where
  "controlError err st = st\<lparr>errorMessage := controlError_message err\<rparr>"

subsection \<open>Loading\<close>

text \<open>
  \<^verbatim>\<open>getRecords()\<close> subscribes to the service. Its \<^verbatim>\<open>next\<close> handler extracts the array, hands
  each stock to the stock service and asks for the groups; the two handlers of that second
  subscription close over the extracted array. All of it works on values typed \<^verbatim>\<open>any\<close>, so
  the state is the one over decoded values, and nothing but a TypeError of the program keeps
  a handler from installing what it received.
\<close>

definition getRecords :: "'obj component \<Rightarrow> 'obj component \<times> call list" where
  "getRecords st = (st, [RecordsService_getRecords_call])"

fun forEach_updateStock :: "jsval list \<Rightarrow> call list \<times> exn option" where
  "forEach_updateStock [] = ([], None)"
| "forEach_updateStock (record # rest) =
     (case read_prop record ''idRecord'' of
        Inl e \<Rightarrow> ([], Some e)
      | Inr i \<Rightarrow>
          (let calls = (if truthy i \<and> typeof_number (peek_prop record ''stock'')
                        then [StockService_call (updateStock i (peek_prop record ''stock''))]
                        else [])
           in (case forEach_updateStock rest of (cs, r) \<Rightarrow> (calls @ cs, r))))"

definition getRecords_next :: "jsval \<Rightarrow> call list \<times> exn option" where
  "getRecords_next data =
     (case forEach_updateStock (getRecords_envelope data) of
        (calls, Some e) \<Rightarrow> (calls, Some e)
      | (calls, None) \<Rightarrow> (calls @ [GroupsService_getGroups_call], None))"

text \<open>
  The object literal \<^verbatim>\<open>processedRecord\<close>: each property is the record's own when that is
  truthy, else its default; the two group names start empty.
\<close>

definition processedRecord_literal :: "jsval \<Rightarrow> (string \<times> jsval) list" where
  "processedRecord_literal record =
     [(''idRecord'', js_or (peek_prop record ''idRecord'') (JNum 0)),
      (''titleRecord'', js_or (peek_prop record ''titleRecord'') (JStr [])),
      (''yearOfPublication'', js_or (peek_prop record ''yearOfPublication'') JNull),
      (''imageRecord'', js_or (peek_prop record ''imageRecord'') JNull),
      (''photo'', js_or (peek_prop record ''photo'') JNull),
      (''photoName'', js_or (peek_prop record ''photoName'') JNull),
      (''price'', js_or (peek_prop record ''price'') (JNum 0)),
      (''stock'', js_or (peek_prop record ''stock'') (JNum 0)),
      (''discontinued'', js_or (peek_prop record ''discontinued'') (JBool False)),
      (''groupId'', js_or (peek_prop record ''groupId'') JNull),
      (''groupName'', JStr []),
      (''nameGroup'', JStr [])]"

text \<open>\<^verbatim>\<open>groups.find(g => g.idGroup === processedRecord.groupId)\<close>\<close>

fun find_group :: "jsval list \<Rightarrow> jsval \<Rightarrow> exn + jsval option" where
  "find_group [] gid = Inr None"
| "find_group (g # gs) gid =
     (case read_prop g ''idGroup'' of
        Inl e \<Rightarrow> Inl e
      | Inr v \<Rightarrow> (if strict_eq v gid then Inr (Some g) else find_group gs gid))"

text \<open>
  The body of \<^verbatim>\<open>recordsArray.map\<close>: the literal, then the group name of the first group with
  the record's \<^verbatim>\<open>groupId\<close>, when that is not \<^verbatim>\<open>null\<close> and such a group exists. Reading a property
  of a record or of a group that is \<^verbatim>\<open>null\<close> or \<^verbatim>\<open>undefined\<close> throws.
\<close>

definition processRecord :: "jsval list \<Rightarrow> jsval \<Rightarrow> exn + jsval" where
  "processRecord grps record =
     (case read_prop record ''idRecord'' of
        Inl e \<Rightarrow> Inl e
      | Inr i \<Rightarrow>
          (let processedRecord = processedRecord_literal record;
               gid = peek_prop (JObj processedRecord) ''groupId''
           in if gid \<noteq> JNull then
                (case find_group grps gid of
                   Inl e \<Rightarrow> Inl e
                 | Inr None \<Rightarrow> Inr (JObj processedRecord)
                 | Inr (Some grp) \<Rightarrow>
                     Inr (JObj
                       (set_prop ''nameGroup'' (js_or (peek_prop grp ''nameGroup'') (JStr []))
                         (set_prop ''groupName'' (js_or (peek_prop grp ''nameGroup'') (JStr []))
                            processedRecord))))
              else Inr (JObj processedRecord)))"

fun map_processRecord :: "jsval list \<Rightarrow> jsval list \<Rightarrow> exn + jsval list" where
  "map_processRecord grps [] = Inr []"
| "map_processRecord grps (record # rest) =
     (case processRecord grps record of
        Inl e \<Rightarrow> Inl e
      | Inr r \<Rightarrow> (case map_processRecord grps rest of Inl e \<Rightarrow> Inl e | Inr rs \<Rightarrow> Inr (r # rs)))"

text \<open>
  \<^verbatim>\<open>this.records = xs; this.filteredRecords = [...this.records]\<close> for an array \<^verbatim>\<open>xs\<close> of objects
  the view has not held before: the objects and the two arrays are new in the store.
\<close>

definition install :: "'obj list \<Rightarrow> 'obj component \<Rightarrow> 'obj component" where
  "install rs st =
     (let refs = [length (cells st) ..< length (cells st) + length rs]
      in st\<lparr>cells := cells st @ rs, arrays := arrays st @ [refs, refs],
            records := length (arrays st), filteredRecords := Suc (length (arrays st))\<rparr>)"

text \<open>
  The \<^verbatim>\<open>next\<close> handler of the group fetch. An exception of the \<^verbatim>\<open>map\<close> leaves the handler before
  any assignment.
\<close>

definition getRecords_groups_next ::
  "jsval \<Rightarrow> jsval \<Rightarrow> jsval component \<Rightarrow> exn + jsval component" where
  "getRecords_groups_next data groupsResponse st =
     (case map_processRecord (getRecords_groups_envelope groupsResponse) (getRecords_envelope data) of
        Inl e \<Rightarrow> Inl e
      | Inr processedRecords \<Rightarrow> Inr (install processedRecords st))"

text \<open>
  The \<^verbatim>\<open>error\<close> handler of the group fetch: the extracted array is assigned as it is, then the
  message is set. It does not assign \<^verbatim>\<open>visibleError\<close>.
\<close>

definition getRecords_groups_error :: "jsval \<Rightarrow> HttpError \<Rightarrow> jsval component \<Rightarrow> jsval component" where
  "getRecords_groups_error data err st = controlError err (install (getRecords_envelope data) st)"

text \<open>
  The \<^verbatim>\<open>error\<close> handler of the record fetch. The observable of the service never errors, so no
  run of the program reaches it.
\<close>

definition getRecords_error :: "HttpError \<Rightarrow> 'obj component \<Rightarrow> 'obj component" where
  "getRecords_error err st = controlError err (st\<lparr>visibleError := True\<rparr>)"

subsection \<open>The group list of the form\<close>

definition getGroups :: "RecordsComponent \<Rightarrow> RecordsComponent \<times> call list" where
  "getGroups st = (st, [GroupsService_getGroups_call])"

definition getGroups_next :: "jsval \<Rightarrow> RecordsComponent \<Rightarrow> exn + RecordsComponent" where
  "getGroups_next response st =
     (case getGroups_envelope response of
        Inl e \<Rightarrow> Inl e
      | Inr groupsArray \<Rightarrow> Inr (st\<lparr>groups := groupsArray\<rparr>))"

definition getGroups_error :: "HttpError \<Rightarrow> RecordsComponent \<Rightarrow> RecordsComponent" where
  "getGroups_error err st = controlError err (st\<lparr>visibleError := True\<rparr>)"

subsection \<open>Saving the draft\<close>

text \<open>
  \<^verbatim>\<open>save()\<close> up to the subscription. An exception of the service call leaves \<^verbatim>\<open>save\<close> before any
  assignment: the state is the one \<^verbatim>\<open>save\<close> was called in, and no handler is subscribed.
\<close>

definition save :: "RecordsService \<Rightarrow> RecordsComponent \<Rightarrow> exn + RecordsComponent \<times> call list" where
  "save svc st =
     (if \<not> truthy_str (titleRecord (record_draft st)) \<or> \<not> truthy_num (price (record_draft st))
         \<or> \<not> truthy_num (stock (record_draft st))
      then Inr (st\<lparr>visibleError := True, errorMessage := ''Please fill in all required fields''\<rparr>, [])
      else
        (let recordToSave =
               (if groupId (record_draft st) = Undefined then (record_draft st)\<lparr>groupId := Null\<rparr>
                else record_draft st)
         in if idRecord (record_draft st) = Val 0
            then (case addRecord svc recordToSave of
                    Inl e \<Rightarrow> Inl e
                  | Inr req \<Rightarrow> Inr (st, [Http_call req]))
            else (case updateRecord svc recordToSave of
                    Inl e \<Rightarrow> Inl e
                  | Inr req \<Rightarrow> Inr (st, [Http_call req]))))"

definition save_next :: "RecordsComponent \<Rightarrow> RecordsComponent \<times> call list" where
  "save_next st = getRecords (resetForm (st\<lparr>visibleError := False\<rparr>))"

definition save_error :: "HttpError \<Rightarrow> RecordsComponent \<Rightarrow> RecordsComponent" where
  "save_error err st = controlError err (st\<lparr>visibleError := True\<rparr>)"

subsection \<open>Cart operations\<close>

text \<open>
  \<^verbatim>\<open>addToCart(record)\<close> and \<^verbatim>\<open>removeFromCart(record)\<close> up to the subscription, and the two
  handlers each of them subscribes. The record is the object at the address given; the email
  is \<^verbatim>\<open>userService.email\<close>.
\<close>

definition addToCart :: "string nullable \<Rightarrow> nat \<Rightarrow> RecordsComponent \<Rightarrow> RecordsComponent \<times> call list" where
  "addToCart userEmail r st =
     (if \<not> truthy_str userEmail then (st, []) else (st, [CartService_addToCart_call r]))"

definition addToCart_next :: "nat \<Rightarrow> RecordsComponent \<Rightarrow> RecordsComponent" where
  "addToCart_next r st =
     republish (st\<lparr>cells := (cells st)[r := (cells st ! r)
        \<lparr>inCart := Val True, amount := Val (or_num (amount (cells st ! r)) 0 + 1)\<rparr>]\<rparr>)"

definition addToCart_error :: "nat \<Rightarrow> RecordsComponent \<Rightarrow> RecordsComponent" where
  "addToCart_error r st =
     republish (st\<lparr>cells := (cells st)[r := (cells st ! r)\<lparr>inCart := Val False, amount := Val 0\<rparr>]\<rparr>)"

definition removeFromCart :: "string nullable \<Rightarrow> nat \<Rightarrow> RecordsComponent \<Rightarrow> RecordsComponent \<times> call list" where
  "removeFromCart userEmail r st =
     (if \<not> truthy_str userEmail \<or> \<not> truthy_bool (inCart (cells st ! r)) then (st, [])
      else (st, [CartService_removeFromCart_call r]))"

definition removeFromCart_next :: "nat \<Rightarrow> RecordsComponent \<Rightarrow> RecordsComponent" where
  "removeFromCart_next r st =
     (let amt = max 0 (or_num (amount (cells st ! r)) 0 - 1)
      in republish (st\<lparr>cells := (cells st)[r := (cells st ! r)
           \<lparr>amount := Val amt, inCart := Val (amt > 0)\<rparr>]\<rparr>))"

definition removeFromCart_error :: "nat \<Rightarrow> RecordsComponent \<Rightarrow> RecordsComponent" where
  "removeFromCart_error r st =
     republish (st\<lparr>cells := (cells st)[r := (cells st ! r)
        \<lparr>amount := Val (or_num (amount (cells st ! r)) 0 + 1), inCart := Val True\<rparr>]\<rparr>)"

section \<open>OrdersComponent\<close>

text \<open>
  The order view keeps its two lists by value: no claim about it depends on a reference. The
  search over orders formats dates by locale and is not modelled.
\<close>

record OrdersComponent =
  orders :: "jsval list"
  filteredOrders :: "jsval list"
  loading :: bool
  expandedOrderId :: "int nullable"

datatype orders_call = OrderService_getOrdersByUserEmail_call string

definition initialOrders :: OrdersComponent where
  "initialOrders = \<lparr>orders = [], filteredOrders = [], loading = True, expandedOrderId = Null\<rparr>"

definition loadOrders :: "string \<Rightarrow> OrdersComponent \<Rightarrow> OrdersComponent \<times> orders_call list" where
  "loadOrders email st = (st\<lparr>loading := True\<rparr>, [OrderService_getOrdersByUserEmail_call email])"

text \<open>The subscription to \<^verbatim>\<open>emailUser$\<close> made in the constructor: \<^verbatim>\<open>if (email) this.loadOrders(email)\<close>.\<close>

definition emailUser_subscriber ::
  "string nullable \<Rightarrow> OrdersComponent \<Rightarrow> OrdersComponent \<times> orders_call list" where
  "emailUser_subscriber email st =
     (case email of
        Val e \<Rightarrow> (if e \<noteq> [] then loadOrders e st else (st, []))
      | _ \<Rightarrow> (st, []))"

text \<open>
  The \<^verbatim>\<open>next\<close> handler of \<^verbatim>\<open>orders.component.ts\<close>. Before it assigns anything it logs
  \<^verbatim>\<open>JSON.parse(JSON.stringify(orders))\<close>, which throws a SyntaxError on \<^verbatim>\<open>undefined\<close>, and a
  property of every element, which throws a TypeError on a \<^verbatim>\<open>null\<close> element.
\<close>

definition loadOrders_next :: "jsval \<Rightarrow> OrdersComponent \<Rightarrow> exn + OrdersComponent" where
  "loadOrders_next response st =
     (if response = JUndefined then Inl SyntaxError
      else (let ordersArray = (if isArray response then elems response else [])
            in if list_ex nullish ordersArray then Inl TypeError
               else Inr (st\<lparr>orders := ordersArray, filteredOrders := ordersArray,
                            loading := False\<rparr>)))"

definition loadOrders_error :: "OrdersComponent \<Rightarrow> OrdersComponent" where
  "loadOrders_error st = st\<lparr>orders := [], filteredOrders := [], loading := False\<rparr>"

text \<open>The \<^verbatim>\<open>next\<close> handler of the second copy of the component, which assigns the list as typed.\<close>

definition loadOrders_next_plain :: "jsval list \<Rightarrow> OrdersComponent \<Rightarrow> OrdersComponent" where
  "loadOrders_next_plain os st = st\<lparr>orders := os, filteredOrders := os, loading := False\<rparr>"

definition toggleOrderDetails :: "int \<Rightarrow> OrdersComponent \<Rightarrow> OrdersComponent" where
  "toggleOrderDetails orderId st =
     st\<lparr>expandedOrderId := (if expandedOrderId st = Val orderId then Null else Val orderId)\<rparr>"

definition isOrderExpanded :: "int \<Rightarrow> OrdersComponent \<Rightarrow> bool" where
  "isOrderExpanded orderId st \<longleftrightarrow> expandedOrderId st = Val orderId"

section \<open>Example states\<close>

text \<open>
  A view that holds two records in both lists, the first with five in stock and one in the
  cart; a draft that passes the local validation of \<^verbatim>\<open>save\<close> and has no group; an order view
  that holds one order.
\<close>

definition example_view :: RecordsComponent where
  "example_view =
     \<lparr>cells =
        [emptyRecord\<lparr>idRecord := Val 7, titleRecord := Val ''Abbey Road'', stock := Val 5,
           inCart := Val True, amount := Val 1\<rparr>,
         emptyRecord\<lparr>idRecord := Val 8, titleRecord := Val ''Revolver'', stock := Val 2\<rparr>],
      arrays = [[0, 1], [0, 1]], records = 0, filteredRecords = 1, visibleError = False,
      errorMessage = [], searchText = [], record_draft = emptyRecord, groups = []\<rparr>"

definition example_draft :: IRecord where
  "example_draft = emptyRecord\<lparr>titleRecord := Val ''Help'', price := Val 12, stock := Val 3\<rparr>"

definition example_service :: RecordsService where
  "example_service = \<lparr>baseUrl = ''https://api.example/'', token = ''t''\<rparr>"

definition example_orders :: OrdersComponent where
  "example_orders =
     \<lparr>orders = [JObj [(''idOrder'', JNum 1)]], filteredOrders = [JObj [(''idOrder'', JNum 1)]],
      loading = False, expandedOrderId = Null\<rparr>"

definition example_error :: HttpError where
  "example_error = \<lparr>status = Val 500, error = BodyNone, message = Val ''Server Error''\<rparr>"

text \<open>
  A response of the record endpoint with one record that carries a group name, a response of
  the group endpoint with its group, the record as the load builds it from the two, and the
  record as the handlers typed \<^verbatim>\<open>IRecord\<close> read the one the service delivers.
\<close>

definition example_response :: jsval where
  "example_response =
     JArr [JObj [(''idRecord'', JNum 7), (''titleRecord'', JStr ''Abbey Road''),
                 (''stock'', JNum 3), (''groupId'', JNum 2), (''groupName'', JStr ''Rock'')]]"

definition example_groups :: jsval where
  "example_groups = JArr [JObj [(''idGroup'', JNum 2), (''nameGroup'', JStr ''The Beatles'')]]"

definition example_processed :: jsval where
  "example_processed =
     JObj [(''idRecord'', JNum 7), (''titleRecord'', JStr ''Abbey Road''),
           (''yearOfPublication'', JNull), (''imageRecord'', JNull), (''photo'', JNull),
           (''photoName'', JNull), (''price'', JNum 0), (''stock'', JNum 3),
           (''discontinued'', JBool False), (''groupId'', JNum 2),
           (''groupName'', JStr ''The Beatles''), (''nameGroup'', JStr ''The Beatles'')]"

definition example_record :: IRecord where
  "example_record =
     \<lparr>idRecord = Val 7, titleRecord = Val ''Abbey Road'', yearOfPublication = Undefined,
      imageRecord = Undefined, photo = Undefined, photoName = Undefined, price = Undefined,
      stock = Val 3, discontinued = Undefined, groupId = Val 2, groupName = Val ''Rock'',
      nameGroup = Undefined, inCart = Undefined, amount = Undefined\<rparr>"

section \<open>Shared facts about the store\<close>

lemma republish_simps:
  "records (republish st) = records st"
  "cells (republish st) = cells st"
  "filteredRecords (republish st) = length (arrays st)"
  "arrays (republish st) = arrays st @ [arrays st ! records st]"
  "visibleError (republish st) = visibleError st"
  "errorMessage (republish st) = errorMessage st"
  by (simp_all add: republish_def)

lemma republish_frame:
  assumes "wf st" and "arrays st0 = arrays st" and "records st0 = records st"
    and "filteredRecords st0 = filteredRecords st"
  shows "records (republish st0) = records st \<and>
         filteredRecords (republish st0) \<noteq> filteredRecords st \<and>
         prefix (arrays st) (arrays (republish st0)) \<and>
         arrays (republish st0) ! filteredRecords (republish st0) = arrays st ! records st"
  using assms by (simp add: republish_simps wf_def)

lemma or_num_zero: "or_num a 0 = (case a of Val n \<Rightarrow> n | _ \<Rightarrow> 0)"
  by (cases a) simp_all

lemma map_stock_props:
  "\<forall>r\<in>set rs. r < length cs \<Longrightarrow> map_stock rid ns cs rs = (cs', out) \<Longrightarrow>
   prefix cs cs' \<and> length out = length rs \<and>
   (\<forall>i<length rs.
      if idRecord (cs ! (rs ! i)) = Val rid
      then length cs \<le> out ! i \<and> out ! i < length cs' \<and>
           cs' ! (out ! i) = (cs ! (rs ! i))\<lparr>stock := Val ns\<rparr>
      else out ! i = rs ! i)"
proof (induction rs arbitrary: cs cs' out)
  case Nil
  then show ?case by simp
next
  case (Cons r rs)
  show ?case
  proof (cases "idRecord (cs ! r) = Val rid")
    case True
    let ?c = "(cs ! r)\<lparr>stock := Val ns\<rparr>"
    obtain out' where rec: "map_stock rid ns (cs @ [?c]) rs = (cs', out')" and out: "out = length cs # out'"
      using Cons.prems(2) True by (auto split: prod.splits)
    have bound: "\<forall>r\<in>set rs. r < length (cs @ [?c])" using Cons.prems(1) by auto
    from Cons.IH [OF bound rec]
    have p: "prefix (cs @ [?c]) cs'" and l: "length out' = length rs"
      and e: "\<forall>i<length rs.
        if idRecord ((cs @ [?c]) ! (rs ! i)) = Val rid
        then length (cs @ [?c]) \<le> out' ! i \<and> out' ! i < length cs' \<and>
             cs' ! (out' ! i) = ((cs @ [?c]) ! (rs ! i))\<lparr>stock := Val ns\<rparr>
        else out' ! i = rs ! i"
      by auto
    from p obtain ext where cs': "cs' = cs @ ?c # ext" by (auto simp: prefix_def)
    have old: "\<And>i. i < length rs \<Longrightarrow> (cs @ [?c]) ! (rs ! i) = cs ! (rs ! i)"
      using Cons.prems(1) by (simp add: nth_append)
    have p0: "prefix cs cs'" unfolding cs' by simp
    have l0: "length out = length (r # rs)" unfolding out using l by simp
    have e0: "length cs \<le> out ! 0 \<and> out ! 0 < length cs' \<and> cs' ! (out ! 0) = ?c"
      unfolding out cs' by simp
    have eS: "\<And>i. i < length rs \<Longrightarrow>
        (if idRecord (cs ! (rs ! i)) = Val rid
         then length cs \<le> out ! Suc i \<and> out ! Suc i < length cs' \<and>
              cs' ! (out ! Suc i) = (cs ! (rs ! i))\<lparr>stock := Val ns\<rparr>
         else out ! Suc i = rs ! i)"
    proof -
      fix i assume i: "i < length rs"
      from e i have "if idRecord ((cs @ [?c]) ! (rs ! i)) = Val rid
        then length (cs @ [?c]) \<le> out' ! i \<and> out' ! i < length cs' \<and>
             cs' ! (out' ! i) = ((cs @ [?c]) ! (rs ! i))\<lparr>stock := Val ns\<rparr>
        else out' ! i = rs ! i" by blast
      then show "if idRecord (cs ! (rs ! i)) = Val rid
         then length cs \<le> out ! Suc i \<and> out ! Suc i < length cs' \<and>
              cs' ! (out ! Suc i) = (cs ! (rs ! i))\<lparr>stock := Val ns\<rparr>
         else out ! Suc i = rs ! i"
        unfolding old [OF i] out by (simp split: if_splits)
    qed
    show ?thesis
      using p0 l0 e0 eS True by (simp add: All_less_Suc2)
  next
    case False
    obtain out' where rec: "map_stock rid ns cs rs = (cs', out')" and out: "out = r # out'"
      using Cons.prems(2) False by (auto split: prod.splits)
    have bound: "\<forall>r\<in>set rs. r < length cs" using Cons.prems(1) by auto
    from Cons.IH [OF bound rec] False show ?thesis
      unfolding out by (simp add: All_less_Suc2)
  qed
qed

lemma prefix_nth_old: "prefix xs ys \<Longrightarrow> i < length xs \<Longrightarrow> ys ! i = xs ! i"
  by (auto simp: prefix_def nth_append)

lemma wf_refs:
  "wf st \<Longrightarrow> a < length (arrays st) \<Longrightarrow> \<forall>r\<in>set (arrays st ! a). r < length (cells st)"
  unfolding wf_def list_all_iff by (meson nth_mem)

lemma wf_bounds:
  "wf st \<Longrightarrow> records st < length (arrays st)"
  "wf st \<Longrightarrow> filteredRecords st < length (arrays st)"
  by (simp_all add: wf_def)

lemma stockUpdate_subscriber_props:
  assumes wf: "wf st"
    and st': "st' = stockUpdate_subscriber (Some u) st"
    and r: "r = recordId u" and s: "s = newStock u"
  shows "records st' = length (arrays st)"
    and "filteredRecords st' = Suc (length (arrays st))"
    and "prefix (arrays st) (arrays st')"
    and "prefix (cells st) (cells st')"
    and "length (arrays st' ! records st') = length (arrays st ! records st)"
    and "length (arrays st' ! filteredRecords st') = length (arrays st ! filteredRecords st)"
    and "\<forall>i<length (arrays st ! records st).
           if idRecord (cells st ! (arrays st ! records st ! i)) = Val r
           then length (cells st) \<le> arrays st' ! records st' ! i \<and>
                cells st' ! (arrays st' ! records st' ! i)
                  = (cells st ! (arrays st ! records st ! i))\<lparr>stock := Val s\<rparr>
           else arrays st' ! records st' ! i = arrays st ! records st ! i"
    and "\<forall>i<length (arrays st ! filteredRecords st).
           if idRecord (cells st ! (arrays st ! filteredRecords st ! i)) = Val r
           then length (cells st) \<le> arrays st' ! filteredRecords st' ! i \<and>
                cells st' ! (arrays st' ! filteredRecords st' ! i)
                  = (cells st ! (arrays st ! filteredRecords st ! i))\<lparr>stock := Val s\<rparr>
           else arrays st' ! filteredRecords st' ! i = arrays st ! filteredRecords st ! i"
proof -
  let ?cs = "cells st" and ?rs1 = "arrays st ! records st" and ?rs2 = "arrays st ! filteredRecords st"
  obtain cs1 out1 where m1: "map_stock r s ?cs ?rs1 = (cs1, out1)" by (cases "map_stock r s ?cs ?rs1")
  obtain cs2 out2 where m2: "map_stock r s cs1 ?rs2 = (cs2, out2)" by (cases "map_stock r s cs1 ?rs2")
  have eq: "st' = st\<lparr>cells := cs2, arrays := arrays st @ [out1, out2],
      records := length (arrays st), filteredRecords := Suc (length (arrays st))\<rparr>"
    unfolding st' stockUpdate_subscriber_def using m1 m2 by (simp add: r s)
  have b1: "\<forall>x\<in>set ?rs1. x < length ?cs" using wf_refs [OF wf wf_bounds(1) [OF wf]] .
  have b2: "\<forall>x\<in>set ?rs2. x < length ?cs" using wf_refs [OF wf wf_bounds(2) [OF wf]] .
  from map_stock_props [OF b1 m1]
  have p1: "prefix ?cs cs1" and l1: "length out1 = length ?rs1"
    and e1: "\<forall>i<length ?rs1.
      if idRecord (?cs ! (?rs1 ! i)) = Val r
      then length ?cs \<le> out1 ! i \<and> out1 ! i < length cs1 \<and>
           cs1 ! (out1 ! i) = (?cs ! (?rs1 ! i))\<lparr>stock := Val s\<rparr>
      else out1 ! i = ?rs1 ! i"
    by auto
  have len1: "length ?cs \<le> length cs1" using p1 by (rule prefix_length_le)
  have b2': "\<forall>x\<in>set ?rs2. x < length cs1" using b2 len1 by auto
  from map_stock_props [OF b2' m2]
  have p2: "prefix cs1 cs2" and l2: "length out2 = length ?rs2"
    and e2: "\<forall>i<length ?rs2.
      if idRecord (cs1 ! (?rs2 ! i)) = Val r
      then length cs1 \<le> out2 ! i \<and> out2 ! i < length cs2 \<and>
           cs2 ! (out2 ! i) = (cs1 ! (?rs2 ! i))\<lparr>stock := Val s\<rparr>
      else out2 ! i = ?rs2 ! i"
    by auto
  show "records st' = length (arrays st)" by (simp add: eq)
  show "filteredRecords st' = Suc (length (arrays st))" by (simp add: eq)
  show "prefix (arrays st) (arrays st')" by (simp add: eq)
  have c: "cells st' = cs2" by (simp add: eq)
  show "prefix (cells st) (cells st')" unfolding c using p1 p2 by (rule prefix_order.trans)
  have a1: "arrays st' ! records st' = out1" by (simp add: eq nth_append)
  have a2: "arrays st' ! filteredRecords st' = out2" by (simp add: eq nth_append)
  show "length (arrays st' ! records st') = length ?rs1" by (simp add: a1 l1)
  show "length (arrays st' ! filteredRecords st') = length ?rs2" by (simp add: a2 l2)
  show "\<forall>i<length ?rs1.
           if idRecord (?cs ! (?rs1 ! i)) = Val r
           then length ?cs \<le> arrays st' ! records st' ! i \<and>
                cells st' ! (arrays st' ! records st' ! i) = (?cs ! (?rs1 ! i))\<lparr>stock := Val s\<rparr>
           else arrays st' ! records st' ! i = ?rs1 ! i"
    unfolding a1 c
  proof (intro allI impI)
    fix i assume i: "i < length ?rs1"
    from e1 i have h: "if idRecord (?cs ! (?rs1 ! i)) = Val r
      then length ?cs \<le> out1 ! i \<and> out1 ! i < length cs1 \<and>
           cs1 ! (out1 ! i) = (?cs ! (?rs1 ! i))\<lparr>stock := Val s\<rparr>
      else out1 ! i = ?rs1 ! i" by blast
    show "if idRecord (?cs ! (?rs1 ! i)) = Val r
           then length ?cs \<le> out1 ! i \<and> cs2 ! (out1 ! i) = (?cs ! (?rs1 ! i))\<lparr>stock := Val s\<rparr>
           else out1 ! i = ?rs1 ! i"
    proof (cases "idRecord (?cs ! (?rs1 ! i)) = Val r")
      case True
      with h have "length ?cs \<le> out1 ! i" and lt: "out1 ! i < length cs1"
        and v: "cs1 ! (out1 ! i) = (?cs ! (?rs1 ! i))\<lparr>stock := Val s\<rparr>" by simp_all
      moreover have "cs2 ! (out1 ! i) = cs1 ! (out1 ! i)" using p2 lt by (rule prefix_nth_old)
      ultimately show ?thesis using True by simp
    next
      case False
      with h show ?thesis by simp
    qed
  qed
  show "\<forall>i<length ?rs2.
           if idRecord (?cs ! (?rs2 ! i)) = Val r
           then length ?cs \<le> arrays st' ! filteredRecords st' ! i \<and>
                cells st' ! (arrays st' ! filteredRecords st' ! i) = (?cs ! (?rs2 ! i))\<lparr>stock := Val s\<rparr>
           else arrays st' ! filteredRecords st' ! i = ?rs2 ! i"
    unfolding a2 c
  proof (intro allI impI)
    fix i assume i: "i < length ?rs2"
    have "?rs2 ! i < length ?cs" using b2 i by simp
    then have old: "cs1 ! (?rs2 ! i) = ?cs ! (?rs2 ! i)" by (rule prefix_nth_old [OF p1])
    from e2 i have h: "if idRecord (cs1 ! (?rs2 ! i)) = Val r
      then length cs1 \<le> out2 ! i \<and> out2 ! i < length cs2 \<and>
           cs2 ! (out2 ! i) = (cs1 ! (?rs2 ! i))\<lparr>stock := Val s\<rparr>
      else out2 ! i = ?rs2 ! i" by blast
    show "if idRecord (?cs ! (?rs2 ! i)) = Val r
           then length ?cs \<le> out2 ! i \<and> cs2 ! (out2 ! i) = (?cs ! (?rs2 ! i))\<lparr>stock := Val s\<rparr>
           else out2 ! i = ?rs2 ! i"
      using h len1 unfolding old by (simp split: if_splits)
  qed
qed

lemma cart_update_idem: "cart_update items (cart_update items c) = cart_update items c"
  by (simp add: cart_update_def Let_def)

lemma cart_forEach_props:
  "\<forall>r\<in>set rs. r < length cs \<Longrightarrow>
   length (cart_forEach items cs rs) = length cs \<and>
   (\<forall>x<length cs. cart_forEach items cs rs ! x
      = (if x \<in> set rs then cart_update items (cs ! x) else cs ! x))"
proof (induction rs arbitrary: cs)
  case Nil
  then show ?case by simp
next
  case (Cons r rs)
  let ?cs1 = "cs[r := cart_update items (cs ! r)]"
  have b: "\<forall>x\<in>set rs. x < length ?cs1" using Cons.prems by simp
  from Cons.IH [OF b]
  have l: "length (cart_forEach items ?cs1 rs) = length cs"
    and e: "\<forall>x<length cs. cart_forEach items ?cs1 rs ! x
      = (if x \<in> set rs then cart_update items (?cs1 ! x) else ?cs1 ! x)"
    by simp_all
  have r: "r < length cs" using Cons.prems by simp
  show ?case
  proof (intro conjI allI impI)
    show "length (cart_forEach items cs (r # rs)) = length cs" using l by simp
  next
    fix x assume x: "x < length cs"
    from e x have h: "cart_forEach items ?cs1 rs ! x
      = (if x \<in> set rs then cart_update items (?cs1 ! x) else ?cs1 ! x)" by blast
    show "cart_forEach items cs (r # rs) ! x
      = (if x \<in> set (r # rs) then cart_update items (cs ! x) else cs ! x)"
    proof (cases "x = r")
      case True
      then show ?thesis using h r by (simp add: cart_update_idem)
    next
      case False
      then show ?thesis using h by simp
    qed
  qed
qed

lemma cart_update_fields:
  "cart_update items c
     = c\<lparr>inCart := Val (\<exists>item\<in>set items. item_idRecord item = idRecord c),
         amount := Val (case find (\<lambda>item. item_idRecord item = idRecord c) items of
                          Some item \<Rightarrow> or_num (item_amount item) 0 | None \<Rightarrow> 0)\<rparr>"
proof -
  have "(\<exists>y. find (\<lambda>item. item_idRecord item = idRecord c) items = Some y)
      \<longleftrightarrow> find (\<lambda>item. item_idRecord item = idRecord c) items \<noteq> None"
    by auto
  also have "\<dots> \<longleftrightarrow> (\<exists>item\<in>set items. item_idRecord item = idRecord c)"
    by (auto simp: find_None_iff)
  finally show ?thesis by (simp add: cart_update_def Let_def)
qed

lemma cart_subscriber_props:
  assumes wf: "wf st" and st': "st' = cart_subscriber cartItems st"
  shows "records st' = records st"
    and "prefix (arrays st) (arrays st')"
    and "filteredRecords st' = length (arrays st)"
    and "arrays st' ! filteredRecords st' = arrays st ! records st"
    and "\<forall>r\<in>set (arrays st ! records st). cells st' ! r = cart_update cartItems (cells st ! r)"
    and "\<forall>r<length (cells st). r \<notin> set (arrays st ! records st) \<longrightarrow> cells st' ! r = cells st ! r"
proof -
  have b: "\<forall>x\<in>set (arrays st ! records st). x < length (cells st)"
    using wf_refs [OF wf wf_bounds(1) [OF wf]] .
  note f = cart_forEach_props [OF b, of cartItems]
  have c: "cells st' = cart_forEach cartItems (cells st) (arrays st ! records st)"
    by (simp add: st' cart_subscriber_def republish_simps)
  show "records st' = records st" by (simp add: st' cart_subscriber_def republish_simps)
  show "prefix (arrays st) (arrays st')" by (simp add: st' cart_subscriber_def republish_simps)
  show "filteredRecords st' = length (arrays st)"
    by (simp add: st' cart_subscriber_def republish_simps)
  show "arrays st' ! filteredRecords st' = arrays st ! records st"
    by (simp add: st' cart_subscriber_def republish_simps)
  show "\<forall>r\<in>set (arrays st ! records st). cells st' ! r = cart_update cartItems (cells st ! r)"
    unfolding c using f b by simp
  show "\<forall>r<length (cells st). r \<notin> set (arrays st ! records st) \<longrightarrow> cells st' ! r = cells st ! r"
    unfolding c using f by simp
qed

lemma install_simps:
  "records (install rs st) = length (arrays st)"
  "filteredRecords (install rs st) = Suc (length (arrays st))"
  "prefix (arrays st) (arrays (install rs st))"
  "prefix (cells st) (cells (install rs st))"
  "arrays (install rs st) ! records (install rs st) = [length (cells st) ..< length (cells st) + length rs]"
  "arrays (install rs st) ! filteredRecords (install rs st) = [length (cells st) ..< length (cells st) + length rs]"
  "cells (install rs st) = cells st @ rs"
  "visibleError (install rs st) = visibleError st"
  "errorMessage (install rs st) = errorMessage st"
  by (simp_all add: install_def Let_def nth_append)

lemma install_contents:
  "map (\<lambda>r. cells (install rs st) ! r) (arrays (install rs st) ! records (install rs st)) = rs"
  "map (\<lambda>r. cells (install rs st) ! r) (arrays (install rs st) ! filteredRecords (install rs st)) = rs"
proof -
  have "[length (cells st) ..< length (cells st) + length rs]
      = map (\<lambda>i. i + length (cells st)) [0 ..< length rs]"
    by (simp only: map_add_upt add.commute)
  then have "map (\<lambda>r. (cells st @ rs) ! r) [length (cells st) ..< length (cells st) + length rs]
      = map (\<lambda>i. (cells st @ rs) ! (i + length (cells st))) [0 ..< length rs]"
    by (simp only: map_map comp_def)
  also have "\<dots> = map (\<lambda>i. rs ! i) [0 ..< length rs]"
    by (simp add: nth_append)
  also have "\<dots> = rs" by (rule map_nth)
  finally have m: "map (\<lambda>r. (cells st @ rs) ! r) [length (cells st) ..< length (cells st) + length rs] = rs" .
  show "map (\<lambda>r. cells (install rs st) ! r) (arrays (install rs st) ! records (install rs st)) = rs"
    unfolding install_simps(5) install_simps(7) by (rule m)
  show "map (\<lambda>r. cells (install rs st) ! r) (arrays (install rs st) ! filteredRecords (install rs st)) = rs"
    unfolding install_simps(6) install_simps(7) by (rule m)
qed

lemma controlError_simps:
  "records (controlError err st) = records st"
  "filteredRecords (controlError err st) = filteredRecords st"
  "arrays (controlError err st) = arrays st"
  "cells (controlError err st) = cells st"
  "visibleError (controlError err st) = visibleError st"
  "errorMessage (controlError err st) = controlError_message err"
  by (simp_all add: controlError_def)

lemma filterRecords_props:
  "prefix (arrays st) (arrays (filterRecords st))"
  "records (filterRecords st) = records st"
  "filteredRecords (filterRecords st) = length (arrays st)"
  "cells (filterRecords st) = cells st"
  by (simp_all add: filterRecords_def republish_simps Let_def)

section \<open>The store stays well-formed\<close>

text \<open>
  The initial view holds only allocated addresses, and every handler of the view keeps it so:
  the hypothesis \<^const>\<open>wf\<close> of the theorems below is an invariant of the component.
\<close>

lemma wf_initial: "wf initial"
  by (simp add: wf_def initial_def)

lemma wf_alt:
  "wf st \<longleftrightarrow>
     records st < length (arrays st) \<and> filteredRecords st < length (arrays st) \<and>
     (\<forall>a\<in>set (arrays st). \<forall>r\<in>set a. r < length (cells st))"
  by (simp add: wf_def list_all_iff)

lemma wf_republish: "wf st \<Longrightarrow> wf (republish st)"
  unfolding wf_alt by (auto simp: republish_simps less_Suc_eq)

lemma wf_cells_update:
  "wf st \<Longrightarrow> length cs = length (cells st) \<Longrightarrow> wf (st\<lparr>cells := cs\<rparr>)"
  unfolding wf_alt by simp

lemma wf_install: "wf st \<Longrightarrow> wf (install rs st)"
  unfolding wf_alt by (fastforce simp: install_def Let_def less_Suc_eq)

lemma wf_controlError: "wf st \<Longrightarrow> wf (controlError err st)"
  unfolding wf_alt by (simp add: controlError_def)

lemma wf_filterRecords: "wf st \<Longrightarrow> wf (filterRecords st)"
  unfolding wf_alt by (auto simp: filterRecords_def republish_simps Let_def less_Suc_eq)

lemma wf_cart_subscriber: "wf st \<Longrightarrow> wf (cart_subscriber cartItems st)"
proof -
  assume w: "wf st"
  have b: "\<forall>x\<in>set (arrays st ! records st). x < length (cells st)"
    using wf_refs [OF w wf_bounds(1) [OF w]] .
  have l: "length (cart_forEach cartItems (cells st) (arrays st ! records st)) = length (cells st)"
    using cart_forEach_props [OF b] by simp
  show ?thesis
    unfolding cart_subscriber_def by (rule wf_republish) (rule wf_cells_update [OF w l])
qed

lemma wf_cart_handlers:
  "wf st \<Longrightarrow> wf (addToCart_next r st)"
  "wf st \<Longrightarrow> wf (addToCart_error r st)"
  "wf st \<Longrightarrow> wf (removeFromCart_next r st)"
  "wf st \<Longrightarrow> wf (removeFromCart_error r st)"
  unfolding addToCart_next_def addToCart_error_def removeFromCart_next_def
    removeFromCart_error_def Let_def
  by (rule wf_republish, rule wf_cells_update, assumption, simp)+

lemma map_stock_bound:
  "\<forall>r\<in>set rs. r < length cs \<Longrightarrow> map_stock rid ns cs rs = (cs', out) \<Longrightarrow>
   \<forall>x\<in>set out. x < length cs'"
proof -
  assume b: "\<forall>r\<in>set rs. r < length cs" and m: "map_stock rid ns cs rs = (cs', out)"
  from map_stock_props [OF b m]
  have p: "prefix cs cs'" and l: "length out = length rs"
    and e: "\<forall>i<length rs.
      if idRecord (cs ! (rs ! i)) = Val rid
      then length cs \<le> out ! i \<and> out ! i < length cs' \<and>
           cs' ! (out ! i) = (cs ! (rs ! i))\<lparr>stock := Val ns\<rparr>
      else out ! i = rs ! i"
    by auto
  have len: "length cs \<le> length cs'" using p by (rule prefix_length_le)
  show ?thesis
  proof
    fix x assume "x \<in> set out"
    then obtain i where i: "i < length out" and x: "x = out ! i" by (auto simp: in_set_conv_nth)
    from e i l have h: "if idRecord (cs ! (rs ! i)) = Val rid
      then length cs \<le> out ! i \<and> out ! i < length cs' \<and>
           cs' ! (out ! i) = (cs ! (rs ! i))\<lparr>stock := Val ns\<rparr>
      else out ! i = rs ! i" by simp
    have "rs ! i < length cs" using b i l by simp
    with h len show "x < length cs'" unfolding x by (simp split: if_splits)
  qed
qed

lemma wf_stockUpdate_subscriber: "wf st \<Longrightarrow> wf (stockUpdate_subscriber update st)"
proof (cases update)
  case None
  assume "wf st"
  then show ?thesis by (simp add: stockUpdate_subscriber_def None)
next
  case (Some u)
  assume w: "wf st"
  let ?cs = "cells st" and ?rs1 = "arrays st ! records st" and ?rs2 = "arrays st ! filteredRecords st"
  obtain cs1 out1 where m1: "map_stock (recordId u) (newStock u) ?cs ?rs1 = (cs1, out1)"
    by (cases "map_stock (recordId u) (newStock u) ?cs ?rs1")
  obtain cs2 out2 where m2: "map_stock (recordId u) (newStock u) cs1 ?rs2 = (cs2, out2)"
    by (cases "map_stock (recordId u) (newStock u) cs1 ?rs2")
  have eq: "stockUpdate_subscriber update st = st\<lparr>cells := cs2, arrays := arrays st @ [out1, out2],
      records := length (arrays st), filteredRecords := Suc (length (arrays st))\<rparr>"
    by (simp add: stockUpdate_subscriber_def Some m1 m2)
  have b1: "\<forall>x\<in>set ?rs1. x < length ?cs" using wf_refs [OF w wf_bounds(1) [OF w]] .
  have b2: "\<forall>x\<in>set ?rs2. x < length ?cs" using wf_refs [OF w wf_bounds(2) [OF w]] .
  have len1: "length ?cs \<le> length cs1"
    using map_stock_props [OF b1 m1] by (simp add: prefix_length_le)
  have b2': "\<forall>x\<in>set ?rs2. x < length cs1" using b2 len1 by auto
  have len2: "length cs1 \<le> length cs2"
    using map_stock_props [OF b2' m2] by (simp add: prefix_length_le)
  have o1: "\<forall>x\<in>set out1. x < length cs2" using map_stock_bound [OF b1 m1] len2 by auto
  have o2: "\<forall>x\<in>set out2. x < length cs2" using map_stock_bound [OF b2' m2] by auto
  have old: "\<forall>a\<in>set (arrays st). \<forall>r\<in>set a. r < length cs2"
    using w len1 len2 unfolding wf_alt by fastforce
  show ?thesis
    unfolding eq wf_alt using o1 o2 old by simp
qed

section \<open>What can stop the load\<close>

text \<open>
  The only exception of the \<^verbatim>\<open>map\<close> over the extracted records is the TypeError of reading a
  property of \<^verbatim>\<open>null\<close> or \<^verbatim>\<open>undefined\<close>, be it a record or a group; otherwise the \<^verbatim>\<open>map\<close> yields
  one object per record.
\<close>

lemma read_prop_Inl: "read_prop v k = Inl e \<Longrightarrow> e = TypeError \<and> nullish v"
  by (cases v) simp_all

lemma find_group_Inl: "find_group gs gid = Inl e \<Longrightarrow> e = TypeError \<and> list_ex nullish gs"
proof (induction gs)
  case Nil
  then show ?case by simp
next
  case (Cons g gs)
  show ?case
  proof (cases "read_prop g ''idGroup''")
    case (Inl e')
    with Cons.prems have "e' = e" by simp
    with Inl read_prop_Inl [of g "''idGroup''" e] show ?thesis by simp
  next
    case (Inr v)
    with Cons.prems have "find_group gs gid = Inl e" by (simp split: if_splits)
    with Cons.IH show ?thesis by simp
  qed
qed

lemma processRecord_Inl:
  "processRecord gs record = Inl e \<Longrightarrow> e = TypeError \<and> (nullish record \<or> list_ex nullish gs)"
proof (cases "read_prop record ''idRecord''")
  case (Inl e')
  assume "processRecord gs record = Inl e"
  with Inl have "e' = e" by (simp add: processRecord_def)
  with Inl read_prop_Inl [of "record" "''idRecord''" e] show ?thesis by simp
next
  case (Inr i)
  assume p: "processRecord gs record = Inl e"
  let ?gid = "peek_prop (JObj (processedRecord_literal record)) ''groupId''"
  from p Inr have "find_group gs ?gid = Inl e"
    by (simp add: processRecord_def Let_def split: if_splits sum.splits option.splits)
  with find_group_Inl show ?thesis by blast
qed

lemma map_processRecord_result:
  "(case map_processRecord gs rs of
      Inr out \<Rightarrow> length out = length rs
    | Inl e \<Rightarrow> e = TypeError \<and> (list_ex nullish rs \<or> list_ex nullish gs))"
proof (induction rs)
  case Nil
  then show ?case by simp
next
  case (Cons r rs)
  show ?case
  proof (cases "processRecord gs r")
    case (Inl e)
    with processRecord_Inl [OF Inl] show ?thesis by auto
  next
    case (Inr p)
    with Cons.IH show ?thesis by (auto split: sum.splits)
  qed
qed

text \<open>
  The two readings of the store agree on the example: the record the service delivers, once
  installed by the load, is read at \<^verbatim>\<open>IRecord\<close> as the example record.
\<close>

lemma typed_view_after_load:
  "typed_view (getRecords_groups_error (snd (RecordsService_getRecords (Inr example_response)))
      example_error initial)
     = Some (controlError example_error (install [example_record] initial))"
  by (simp add: typed_view_def RecordsService_getRecords_def RecordsService_envelope_def
      example_response_def getRecords_tap_def Let_def getRecords_envelope_def
      getRecords_groups_error_def install_def initial_def controlError_def as_IRecord_def
      example_record_def)

section \<open>Envelope handling: what the call sites share\<close>

text \<open>
  Claim C6, as amended. A bare array and an object with an array under \<^verbatim>\<open>$values\<close> yield the
  same ordered sequence at all four call sites (the service's record handler, the component's
  record handler, the component's group handler inside the load, and \<^verbatim>\<open>getGroups\<close>). An array
  under \<^verbatim>\<open>data\<close> is tried only by the component's record handler and by \<^verbatim>\<open>getGroups\<close>; the
  service falls back to the values of the object instead, and the group handler of the load
  yields nothing.
\<close>

theorem envelope_strategies:
  "RecordsService_envelope (JArr xs) = xs \<and> getRecords_envelope (JArr xs) = xs \<and>
   getRecords_groups_envelope (JArr xs) = xs \<and> getGroups_envelope (JArr xs) = Inr xs \<and>
   (map_of ps ''$values'' = Some (JArr ys) \<longrightarrow>
      RecordsService_envelope (JObj ps) = ys \<and> getRecords_envelope (JObj ps) = ys \<and>
      getRecords_groups_envelope (JObj ps) = ys \<and> getGroups_envelope (JObj ps) = Inr ys) \<and>
   (\<not> isArray (peek_prop (JObj qs) ''$values'') \<and> map_of qs ''data'' = Some (JArr zs) \<longrightarrow>
      getRecords_envelope (JObj qs) = zs \<and> getGroups_envelope (JObj qs) = Inr zs \<and>
      RecordsService_envelope (JObj qs) = map snd qs \<and> getRecords_groups_envelope (JObj qs) = [])"
  by (auto simp: RecordsService_envelope_def getRecords_envelope_def
      getRecords_groups_envelope_def getGroups_envelope_def)

text \<open>
  The theorem of claim C6 at the payloads \<^verbatim>\<open>[1]\<close>, \<^verbatim>\<open>{$values: [2]}\<close> and \<^verbatim>\<open>{data: [3]}\<close>.
\<close>

theorem envelope_strategies_witness:
  "map_of [(''$values'', JArr [JNum 2])] ''$values'' = Some (JArr [JNum 2]) \<and>
   RecordsService_envelope (JObj [(''$values'', JArr [JNum 2])]) = [JNum 2] \<and>
   getGroups_envelope (JObj [(''$values'', JArr [JNum 2])]) = Inr [JNum 2] \<and>
   \<not> isArray (peek_prop (JObj [(''data'', JArr [JNum 3])]) ''$values'') \<and>
   map_of [(''data'', JArr [JNum 3])] ''data'' = Some (JArr [JNum 3]) \<and>
   getRecords_envelope (JObj [(''data'', JArr [JNum 3])]) = [JNum 3] \<and>
   RecordsService_envelope (JObj [(''data'', JArr [JNum 3])]) = [JArr [JNum 3]]"
  using envelope_strategies [of "[JNum 1]" "[(''$values'', JArr [JNum 2])]" "[JNum 2]"
      "[(''data'', JArr [JNum 3])]" "[JNum 3]"]
  by simp

text \<open>
  Claim C6 as stated fails on the payload \<^verbatim>\<open>{data: [{idRecord: 7}]}\<close>: the component extracts
  the one record, the service extracts a sequence whose single element is the whole array, and
  the group handler of the load extracts nothing.
\<close>

theorem envelope_data_counterexample:
  "getRecords_envelope (JObj [(''data'', JArr [JObj [(''idRecord'', JNum 7)]])])
     = [JObj [(''idRecord'', JNum 7)]] \<and>
   RecordsService_envelope (JObj [(''data'', JArr [JObj [(''idRecord'', JNum 7)]])])
     = [JArr [JObj [(''idRecord'', JNum 7)]]] \<and>
   getRecords_groups_envelope (JObj [(''data'', JArr [JObj [(''idRecord'', JNum 7)]])]) = []"
  by (simp add: RecordsService_envelope_def getRecords_envelope_def getRecords_groups_envelope_def)

section \<open>Malformed payloads\<close>

text \<open>
  Claim C8 at the payload \<^verbatim>\<open>null\<close>: the \<^verbatim>\<open>next\<close> handler of \<^verbatim>\<open>getGroups\<close> throws a TypeError
  (and so it does on \<^verbatim>\<open>undefined\<close>), where the claim promises the empty sequence. The empty
  object does degrade to the empty list there, and the other three call sites, which guard
  the property read, yield the empty sequence on \<^verbatim>\<open>null\<close>.
\<close>

theorem getGroups_null_throws:
  "getGroups_next JNull st = Inl TypeError \<and> getGroups_next JUndefined st = Inl TypeError \<and>
   getGroups_next (JObj []) st = Inr (st\<lparr>groups := []\<rparr>) \<and>
   getRecords_envelope JNull = [] \<and> getRecords_groups_envelope JNull = [] \<and>
   RecordsService_envelope JNull = []"
  by (simp add: getGroups_next_def getGroups_envelope_def getRecords_envelope_def
      getRecords_groups_envelope_def RecordsService_envelope_def)

section \<open>Saving a draft without a group\<close>

text \<open>
  Claim C10. For a draft whose \<^verbatim>\<open>groupId\<close> is \<^verbatim>\<open>null\<close> or \<^verbatim>\<open>undefined\<close>, \<^verbatim>\<open>addRecord\<close> and
  \<^verbatim>\<open>updateRecord\<close> throw the error \<^verbatim>\<open>Group is required\<close> and build no request; and when the
  draft of the view passes the local validation of \<^verbatim>\<open>save\<close> (title, price and stock), \<^verbatim>\<open>save\<close>
  itself ends with that exception: no request is issued, no handler is subscribed, and the
  state, \<^verbatim>\<open>visibleError\<close> included, is not assigned.
\<close>

theorem group_required_thrown_before_request:
  "(groupId d = Null \<or> groupId d = Undefined \<longrightarrow>
      addRecord svc d = Inl (Error ''Group is required'') \<and>
      updateRecord svc d = Inl (Error ''Group is required'')) \<and>
   (truthy_str (titleRecord (record_draft st)) \<and> truthy_num (price (record_draft st)) \<and>
    truthy_num (stock (record_draft st)) \<and>
    (groupId (record_draft st) = Null \<or> groupId (record_draft st) = Undefined) \<longrightarrow>
      save svc st = Inl (Error ''Group is required''))"
  by (auto simp: addRecord_def updateRecord_def save_def Let_def)

text \<open>The theorem of claim C10 at a draft with a title, a price and a stock and no group.\<close>

theorem group_required_witness:
  "groupId example_draft = Null \<and>
   truthy_str (titleRecord example_draft) \<and> truthy_num (price example_draft) \<and>
   truthy_num (stock example_draft) \<and>
   addRecord example_service example_draft = Inl (Error ''Group is required'') \<and>
   updateRecord example_service example_draft = Inl (Error ''Group is required'') \<and>
   save example_service (initial\<lparr>record_draft := example_draft\<rparr>) = Inl (Error ''Group is required'')"
  using group_required_thrown_before_request [of example_draft example_service
      "initial\<lparr>record_draft := example_draft\<rparr>"]
  by (simp add: example_draft_def emptyRecord_def)

section \<open>Orders and the identity of the user\<close>

text \<open>
  Claim C9, as amended. When the identity changes to a present (non-empty) email, the order
  view issues one fetch for that email, and the answer replaces the held list. When it changes
  to no identity (\<^verbatim>\<open>null\<close>, \<^verbatim>\<open>undefined\<close> or the empty string), no fetch is issued and the
  state, the held list included, stays as it was. The list is emptied only by a failed fetch.
\<close>

theorem orders_reload_on_identity:
  "(e \<noteq> [] \<longrightarrow>
      emailUser_subscriber (Val e) st
        = (st\<lparr>loading := True\<rparr>, [OrderService_getOrdersByUserEmail_call e])) \<and>
   emailUser_subscriber Null st = (st, []) \<and>
   emailUser_subscriber Undefined st = (st, []) \<and>
   emailUser_subscriber (Val []) st = (st, []) \<and>
   (\<not> list_ex nullish os \<longrightarrow>
      loadOrders_next (JArr os) st
        = Inr (st\<lparr>orders := os, filteredOrders := os, loading := False\<rparr>)) \<and>
   loadOrders_next_plain os st = st\<lparr>orders := os, filteredOrders := os, loading := False\<rparr> \<and>
   orders (loadOrders_error st) = [] \<and> filteredOrders (loadOrders_error st) = []"
  by (simp add: emailUser_subscriber_def loadOrders_def loadOrders_next_def
      loadOrders_next_plain_def loadOrders_error_def)

text \<open>The theorem of claim C9 at an email and an answer of one order.\<close>

theorem orders_reload_witness:
  "''ana@example.org'' \<noteq> [] \<and>
   snd (emailUser_subscriber (Val ''ana@example.org'') example_orders)
     = [OrderService_getOrdersByUserEmail_call ''ana@example.org''] \<and>
   \<not> list_ex nullish [JObj [(''idOrder'', JNum 2)]] \<and>
   loadOrders_next (JArr [JObj [(''idOrder'', JNum 2)]]) example_orders
     = Inr (example_orders\<lparr>orders := [JObj [(''idOrder'', JNum 2)]],
          filteredOrders := [JObj [(''idOrder'', JNum 2)]], loading := False\<rparr>)"
  using orders_reload_on_identity [of "''ana@example.org''" example_orders
      "[JObj [(''idOrder'', JNum 2)]]"]
  by simp

text \<open>
  Claim C9 as stated fails when the identity goes away while orders are held: no fetch is
  issued, and the list still holds the order it held before.
\<close>

theorem orders_kept_without_identity_counterexample:
  "snd (emailUser_subscriber Null example_orders) = [] \<and>
   orders (fst (emailUser_subscriber Null example_orders)) = [JObj [(''idOrder'', JNum 1)]] \<and>
   orders (fst (emailUser_subscriber Null example_orders)) \<noteq> []"
  by (simp add: emailUser_subscriber_def example_orders_def)

section \<open>Stock events of increment and decrement\<close>

text \<open>
  Claim C3 at \<^verbatim>\<open>decrementStock(7)\<close> and \<^verbatim>\<open>incrementStock(7)\<close> answered with success, for a view
  that shows record 7 with five in stock: the event published carries the signed amount, and
  the subscriber installs it as the stock of the record in both lists, \<^verbatim>\<open>-1\<close> after the
  decrement and \<^verbatim>\<open>1\<close> after the increment.
\<close>

theorem decrementStock_installs_delta:
  "fst (decrementStock_outcome 7 (Inr JNull)) = [\<lparr>recordId = 7, newStock = - 1\<rparr>] \<and>
   map (\<lambda>r. stock (cells example_view ! r)) (arrays example_view ! records example_view)
     = [Val 5, Val 2] \<and>
   (let st' = fold (\<lambda>u. stockUpdate_subscriber (Some u))
                (fst (decrementStock_outcome 7 (Inr JNull))) example_view
    in map (\<lambda>r. stock (cells st' ! r)) (arrays st' ! records st') = [Val (- 1), Val 2] \<and>
       map (\<lambda>r. stock (cells st' ! r)) (arrays st' ! filteredRecords st') = [Val (- 1), Val 2]) \<and>
   (let st' = fold (\<lambda>u. stockUpdate_subscriber (Some u))
                (fst (incrementStock_outcome 7 (Inr JNull))) example_view
    in map (\<lambda>r. stock (cells st' ! r)) (arrays st' ! records st') = [Val 1, Val 2] \<and>
       map (\<lambda>r. stock (cells st' ! r)) (arrays st' ! filteredRecords st') = [Val 1, Val 2])"
  by (simp add: decrementStock_outcome_def incrementStock_outcome_def notifyStockUpdate_def
      stockUpdate_subscriber_def example_view_def emptyRecord_def Let_def)

section \<open>Adding to the cart\<close>

text \<open>
  Claim C1, as amended. For every record and every present identity, \<^verbatim>\<open>addToCart(record)\<close>
  issues the remote add and changes nothing in the view until the call resolves. When it
  succeeds, the record gets \<^verbatim>\<open>inCart = true\<close> and its amount incremented by exactly one (an
  absent amount counts as zero), and the filtered list is republished as a new array with the
  contents of the base list. When it fails, the record gets \<^verbatim>\<open>inCart = false\<close> and
  \<^verbatim>\<open>amount = 0\<close> whatever it was, and the filtered list is republished again.
\<close>

theorem addToCart_applied_on_outcome:
  assumes "truthy_str userEmail" and "wf st" and "r < length (cells st)"
  shows "addToCart userEmail r st = (st, [CartService_addToCart_call r]) \<and>
   (let st' = addToCart_next r st
    in inCart (cells st' ! r) = Val True \<and>
       amount (cells st' ! r) = Val ((case amount (cells st ! r) of Val n \<Rightarrow> n | _ \<Rightarrow> 0) + 1) \<and>
       records st' = records st \<and> filteredRecords st' \<noteq> filteredRecords st \<and>
       prefix (arrays st) (arrays st') \<and>
       arrays st' ! filteredRecords st' = arrays st ! records st) \<and>
   (let st' = addToCart_error r st
    in inCart (cells st' ! r) = Val False \<and> amount (cells st' ! r) = Val 0 \<and>
       records st' = records st \<and> filteredRecords st' \<noteq> filteredRecords st \<and>
       prefix (arrays st) (arrays st') \<and>
       arrays st' ! filteredRecords st' = arrays st ! records st)"
proof -
  have a: "addToCart userEmail r st = (st, [CartService_addToCart_call r])"
    using assms(1) by (simp add: addToCart_def)
  have n: "cells (addToCart_next r st) ! r
      = (cells st ! r)\<lparr>inCart := Val True, amount := Val (or_num (amount (cells st ! r)) 0 + 1)\<rparr>"
    using assms(3) by (simp add: addToCart_next_def republish_simps)
  have e: "cells (addToCart_error r st) ! r = (cells st ! r)\<lparr>inCart := Val False, amount := Val 0\<rparr>"
    using assms(3) by (simp add: addToCart_error_def republish_simps)
  have fn: "records (addToCart_next r st) = records st \<and>
         filteredRecords (addToCart_next r st) \<noteq> filteredRecords st \<and>
         prefix (arrays st) (arrays (addToCart_next r st)) \<and>
         arrays (addToCart_next r st) ! filteredRecords (addToCart_next r st) = arrays st ! records st"
    unfolding addToCart_next_def by (rule republish_frame [OF assms(2)]) simp_all
  have fe: "records (addToCart_error r st) = records st \<and>
         filteredRecords (addToCart_error r st) \<noteq> filteredRecords st \<and>
         prefix (arrays st) (arrays (addToCart_error r st)) \<and>
         arrays (addToCart_error r st) ! filteredRecords (addToCart_error r st) = arrays st ! records st"
    unfolding addToCart_error_def by (rule republish_frame [OF assms(2)]) simp_all
  show ?thesis
    unfolding Let_def using a fn fe by (simp add: n e or_num_zero)
qed

text \<open>The theorem of claim C1 at the two records of the example view.\<close>

theorem addToCart_witness:
  "truthy_str (Val ''ana@example.org'') \<and> wf example_view \<and> 1 < length (cells example_view) \<and>
   addToCart (Val ''ana@example.org'') 1 example_view = (example_view, [CartService_addToCart_call 1]) \<and>
   inCart (cells (addToCart_next 1 example_view) ! 1) = Val True \<and>
   amount (cells (addToCart_next 1 example_view) ! 1) = Val 1 \<and>
   amount (cells (addToCart_next 0 example_view) ! 0) = Val 2 \<and>
   amount (cells (addToCart_error 0 example_view) ! 0) = Val 0"
proof -
  have e: "truthy_str (Val ''ana@example.org'')" by simp
  have w: "wf example_view" by (simp add: wf_def example_view_def)
  have l1: "1 < length (cells example_view)" and l0: "0 < length (cells example_view)"
    by (simp_all add: example_view_def)
  have a1: "amount (cells example_view ! Suc 0) = Undefined" and a0: "amount (cells example_view ! 0) = Val 1"
    by (simp_all add: example_view_def emptyRecord_def)
  show ?thesis
    using addToCart_applied_on_outcome [OF e w l1] addToCart_applied_on_outcome [OF e w l0] e w l1
    by (simp add: Let_def a1 a0)
qed

text \<open>
  Claim C1 as stated fails between the call and its resolution: with an identity present, the
  state after \<^verbatim>\<open>addToCart\<close> is the state before it, so the second record of the example view
  still has neither \<^verbatim>\<open>inCart\<close> nor an amount while the remote add is pending.
\<close>

theorem addToCart_not_optimistic_counterexample:
  "truthy_str (Val ''ana@example.org'') \<and>
   fst (addToCart (Val ''ana@example.org'') 1 example_view) = example_view \<and>
   snd (addToCart (Val ''ana@example.org'') 1 example_view) = [CartService_addToCart_call 1] \<and>
   inCart (cells (fst (addToCart (Val ''ana@example.org'') 1 example_view)) ! 1) = Undefined \<and>
   amount (cells (fst (addToCart (Val ''ana@example.org'') 1 example_view)) ! 1) = Undefined"
  by (simp add: addToCart_def example_view_def emptyRecord_def)

section \<open>Removing from the cart\<close>

text \<open>
  Claim C2, as amended. With no identity, or with a record that is not marked in the cart,
  \<^verbatim>\<open>removeFromCart(record)\<close> does nothing and issues no call. Otherwise it issues the remote
  remove and changes nothing in the view until the call resolves; when it succeeds, the amount
  is decremented with a floor of zero, \<^verbatim>\<open>inCart\<close> becomes \<^verbatim>\<open>amount > 0\<close>, and the filtered list is
  republished as a new array, so a record with amount one ends with amount zero and
  \<^verbatim>\<open>inCart = false\<close>.
\<close>

theorem removeFromCart_applied_on_success:
  "(\<not> truthy_str userEmail \<or> \<not> truthy_bool (inCart (cells st ! r)) \<longrightarrow>
      removeFromCart userEmail r st = (st, [])) \<and>
   (truthy_str userEmail \<and> inCart (cells st ! r) = Val True \<longrightarrow>
      removeFromCart userEmail r st = (st, [CartService_removeFromCart_call r])) \<and>
   (wf st \<and> r < length (cells st) \<longrightarrow>
      (let st' = removeFromCart_next r st;
           n = (case amount (cells st ! r) of Val n \<Rightarrow> n | _ \<Rightarrow> 0)
       in amount (cells st' ! r) = Val (max 0 (n - 1)) \<and>
          inCart (cells st' ! r) = Val (0 < max 0 (n - 1)) \<and>
          records st' = records st \<and> filteredRecords st' \<noteq> filteredRecords st \<and>
          prefix (arrays st) (arrays st') \<and>
          arrays st' ! filteredRecords st' = arrays st ! records st)) \<and>
   (wf st \<and> r < length (cells st) \<and> amount (cells st ! r) = Val 1 \<longrightarrow>
      amount (cells (removeFromCart_next r st) ! r) = Val 0 \<and>
      inCart (cells (removeFromCart_next r st) ! r) = Val False)"
proof -
  have a: "\<not> truthy_str userEmail \<or> \<not> truthy_bool (inCart (cells st ! r)) \<longrightarrow>
      removeFromCart userEmail r st = (st, [])"
    by (simp add: removeFromCart_def)
  have b: "truthy_str userEmail \<and> inCart (cells st ! r) = Val True \<longrightarrow>
      removeFromCart userEmail r st = (st, [CartService_removeFromCart_call r])"
    by (simp add: removeFromCart_def)
  have n: "r < length (cells st) \<Longrightarrow> cells (removeFromCart_next r st) ! r
      = (cells st ! r)\<lparr>amount := Val (max 0 (or_num (amount (cells st ! r)) 0 - 1)),
           inCart := Val (0 < max 0 (or_num (amount (cells st ! r)) 0 - 1))\<rparr>"
    by (simp add: removeFromCart_next_def republish_simps Let_def)
  have f: "wf st \<Longrightarrow> records (removeFromCart_next r st) = records st \<and>
         filteredRecords (removeFromCart_next r st) \<noteq> filteredRecords st \<and>
         prefix (arrays st) (arrays (removeFromCart_next r st)) \<and>
         arrays (removeFromCart_next r st) ! filteredRecords (removeFromCart_next r st)
           = arrays st ! records st"
    unfolding removeFromCart_next_def Let_def by (rule republish_frame) simp_all
  have c: "wf st \<and> r < length (cells st) \<longrightarrow>
      (let st' = removeFromCart_next r st;
           n = (case amount (cells st ! r) of Val n \<Rightarrow> n | _ \<Rightarrow> 0)
       in amount (cells st' ! r) = Val (max 0 (n - 1)) \<and>
          inCart (cells st' ! r) = Val (0 < max 0 (n - 1)) \<and>
          records st' = records st \<and> filteredRecords st' \<noteq> filteredRecords st \<and>
          prefix (arrays st) (arrays st') \<and>
          arrays st' ! filteredRecords st' = arrays st ! records st)"
    unfolding Let_def using f by (simp add: n or_num_zero)
  have d: "wf st \<and> r < length (cells st) \<and> amount (cells st ! r) = Val 1 \<longrightarrow>
      amount (cells (removeFromCart_next r st) ! r) = Val 0 \<and>
      inCart (cells (removeFromCart_next r st) ! r) = Val False"
    by (simp add: n)
  from a b c d show ?thesis by blast
qed

text \<open>The theorem of claim C2 at the two records of the example view.\<close>

theorem removeFromCart_witness:
  "truthy_str (Val ''ana@example.org'') \<and> inCart (cells example_view ! 0) = Val True \<and>
   wf example_view \<and> 0 < length (cells example_view) \<and> amount (cells example_view ! 0) = Val 1 \<and>
   \<not> truthy_bool (inCart (cells example_view ! 1)) \<and>
   removeFromCart (Val ''ana@example.org'') 1 example_view = (example_view, []) \<and>
   removeFromCart (Val ''ana@example.org'') 0 example_view
     = (example_view, [CartService_removeFromCart_call 0]) \<and>
   amount (cells (removeFromCart_next 0 example_view) ! 0) = Val 0 \<and>
   inCart (cells (removeFromCart_next 0 example_view) ! 0) = Val False"
proof -
  have e: "truthy_str (Val ''ana@example.org'')" by simp
  have w: "wf example_view" by (simp add: wf_def example_view_def)
  have l0: "0 < length (cells example_view)" by (simp add: example_view_def)
  have i0: "inCart (cells example_view ! 0) = Val True" and a0: "amount (cells example_view ! 0) = Val 1"
    and i1: "\<not> truthy_bool (inCart (cells example_view ! 1))"
    by (simp_all add: example_view_def emptyRecord_def)
  show ?thesis
    using removeFromCart_applied_on_success [of "Val ''ana@example.org''" example_view 0]
      removeFromCart_applied_on_success [of "Val ''ana@example.org''" example_view 1]
      e w l0 i0 a0 i1
    by simp
qed

text \<open>
  Claim C2 as stated fails on the first record of the example view (in the cart, amount one):
  while the remote remove is pending the record still has amount one and \<^verbatim>\<open>inCart = true\<close>,
  and when the remote remove fails the error handler leaves it with amount two.
\<close>

theorem removeFromCart_not_optimistic_counterexample:
  "truthy_str (Val ''ana@example.org'') \<and> inCart (cells example_view ! 0) = Val True \<and>
   amount (cells example_view ! 0) = Val 1 \<and>
   amount (cells (fst (removeFromCart (Val ''ana@example.org'') 0 example_view)) ! 0) = Val 1 \<and>
   inCart (cells (fst (removeFromCart (Val ''ana@example.org'') 0 example_view)) ! 0) = Val True \<and>
   amount (cells (removeFromCart_error 0
      (fst (removeFromCart (Val ''ana@example.org'') 0 example_view))) ! 0) = Val 2"
  by (simp add: removeFromCart_def removeFromCart_error_def republish_simps example_view_def
      emptyRecord_def)

section \<open>Applying a stock event\<close>

text \<open>
  Claim C7. After the subscriber has applied the event \<^verbatim>\<open>{recordId: r, newStock: s}\<close>, both
  fields hold arrays that were not held before (neither is the old base list nor the old
  filtered list) and have the lengths of the old ones; no array and no object that existed
  before the event has changed. At every index of either list, if the old entry has identifier
  \<^verbatim>\<open>r\<close>, the new entry is an object allocated by the event, equal to the old one in every
  field but \<^verbatim>\<open>stock\<close>, which is exactly \<^verbatim>\<open>s\<close>; otherwise the new entry is the very address of
  the old one.
\<close>

theorem applyStockEvent_frame:
  assumes "wf st"
  shows "let st' = stockUpdate_subscriber (Some \<lparr>recordId = r, newStock = s\<rparr>) st
    in records st' \<noteq> records st \<and> records st' \<noteq> filteredRecords st \<and>
       filteredRecords st' \<noteq> filteredRecords st \<and> filteredRecords st' \<noteq> records st \<and>
       prefix (arrays st) (arrays st') \<and> prefix (cells st) (cells st') \<and>
       length (arrays st' ! records st') = length (arrays st ! records st) \<and>
       length (arrays st' ! filteredRecords st') = length (arrays st ! filteredRecords st) \<and>
       (\<forall>i<length (arrays st ! records st).
           if idRecord (cells st ! (arrays st ! records st ! i)) = Val r
           then length (cells st) \<le> arrays st' ! records st' ! i \<and>
                cells st' ! (arrays st' ! records st' ! i)
                  = (cells st ! (arrays st ! records st ! i))\<lparr>stock := Val s\<rparr>
           else arrays st' ! records st' ! i = arrays st ! records st ! i) \<and>
       (\<forall>i<length (arrays st ! filteredRecords st).
           if idRecord (cells st ! (arrays st ! filteredRecords st ! i)) = Val r
           then length (cells st) \<le> arrays st' ! filteredRecords st' ! i \<and>
                cells st' ! (arrays st' ! filteredRecords st' ! i)
                  = (cells st ! (arrays st ! filteredRecords st ! i))\<lparr>stock := Val s\<rparr>
           else arrays st' ! filteredRecords st' ! i = arrays st ! filteredRecords st ! i)"
proof -
  define st' where "st' = stockUpdate_subscriber (Some \<lparr>recordId = r, newStock = s\<rparr>) st"
  have r: "r = recordId \<lparr>recordId = r, newStock = s\<rparr>" and s: "s = newStock \<lparr>recordId = r, newStock = s\<rparr>"
    by simp_all
  note p = stockUpdate_subscriber_props [OF assms st'_def r s]
  have d: "records st' \<noteq> records st \<and> records st' \<noteq> filteredRecords st \<and>
       filteredRecords st' \<noteq> filteredRecords st \<and> filteredRecords st' \<noteq> records st"
    using p(1,2) wf_bounds [OF assms] by simp
  show ?thesis
    unfolding Let_def st'_def [symmetric] using d p(3) p(4) p(5) p(6) p(7) p(8) by blast
qed

text \<open>
  The theorem of claim C7 at the example view and the event \<^verbatim>\<open>{recordId: 7, newStock: 3}\<close>:
  the first record is copied once per list with stock three, the original keeps stock five,
  the second record keeps its address in both lists.
\<close>

theorem applyStockEvent_frame_witness:
  "wf example_view \<and>
   (let st' = stockUpdate_subscriber (Some \<lparr>recordId = 7, newStock = 3\<rparr>) example_view
    in records st' = 2 \<and> filteredRecords st' = 3 \<and>
       idRecord (cells example_view ! (arrays example_view ! records example_view ! 0)) = Val 7 \<and>
       arrays st' ! records st' ! 0 = 2 \<and> stock (cells st' ! 2) = Val 3 \<and>
       arrays st' ! filteredRecords st' ! 0 = 3 \<and> stock (cells st' ! 3) = Val 3 \<and>
       stock (cells st' ! 0) = Val 5 \<and>
       arrays st' ! records st' ! 1 = 1 \<and> arrays st' ! filteredRecords st' ! 1 = 1)"
proof -
  have w: "wf example_view" by (simp add: wf_def example_view_def)
  show ?thesis
    using applyStockEvent_frame [OF w, of 7 3] w
    by (simp add: Let_def stockUpdate_subscriber_def example_view_def emptyRecord_def)
qed

section \<open>Which mutations install new arrays\<close>

text \<open>
  Claim C5, as amended. No mutation of a list of the view changes an array in place: every
  array that existed before a stock event, a cart snapshot, a search or a load is unchanged
  after it. A stock event and a load install new arrays for both the base list and the filtered
  list; a search installs a new array for the filtered list and keeps the base list. A cart
  snapshot keeps the base list's reference: it writes \<^verbatim>\<open>inCart\<close> and \<^verbatim>\<open>amount\<close> into the record
  objects of the base list in place, from the first cart line with the record's identifier
  (else \<^verbatim>\<open>inCart = false\<close>, \<^verbatim>\<open>amount = 0\<close>), leaves every other object alone, and installs a
  new array, with the base list's contents, for the filtered list only.

  The load is taken on the store of decoded values, for every payload. When the group fetch
  fails, the two new arrays hold exactly the records extracted. When it succeeds, they hold one
  built record per extracted record, unless a record or a group is \<^verbatim>\<open>null\<close> or \<^verbatim>\<open>undefined\<close>:
  only then can the handler throw, a TypeError, before it assigns anything.
\<close>

theorem list_mutations_install_new_arrays:
  assumes "wf st" and "wf rv"
  shows
   "(let st' = cart_subscriber cartItems st
     in records st' = records st \<and> prefix (arrays st) (arrays st') \<and>
        filteredRecords st' \<noteq> filteredRecords st \<and> filteredRecords st' \<noteq> records st \<and>
        arrays st' ! filteredRecords st' = arrays st ! records st \<and>
        (\<forall>r\<in>set (arrays st ! records st).
           cells st' ! r
             = (cells st ! r)
                 \<lparr>inCart := Val (\<exists>item\<in>set cartItems. item_idRecord item = idRecord (cells st ! r)),
                  amount := Val (case find (\<lambda>item. item_idRecord item = idRecord (cells st ! r)) cartItems of
                                   Some item \<Rightarrow> or_num (item_amount item) 0 | None \<Rightarrow> 0)\<rparr>) \<and>
        (\<forall>r<length (cells st). r \<notin> set (arrays st ! records st) \<longrightarrow> cells st' ! r = cells st ! r)) \<and>
    (let st' = stockUpdate_subscriber (Some u) st
     in prefix (arrays st) (arrays st') \<and>
        records st' \<noteq> records st \<and> records st' \<noteq> filteredRecords st \<and>
        filteredRecords st' \<noteq> filteredRecords st \<and> filteredRecords st' \<noteq> records st) \<and>
    (let st' = filterRecords st
     in prefix (arrays st) (arrays st') \<and> records st' = records st \<and>
        filteredRecords st' \<noteq> filteredRecords st \<and> filteredRecords st' \<noteq> records st) \<and>
    (let st' = getRecords_groups_error data err rv
     in prefix (arrays rv) (arrays st') \<and>
        records st' \<noteq> records rv \<and> records st' \<noteq> filteredRecords rv \<and>
        filteredRecords st' \<noteq> filteredRecords rv \<and> filteredRecords st' \<noteq> records rv \<and>
        records st' \<noteq> filteredRecords st' \<and>
        map (\<lambda>r. cells st' ! r) (arrays st' ! records st') = getRecords_envelope data \<and>
        map (\<lambda>r. cells st' ! r) (arrays st' ! filteredRecords st') = getRecords_envelope data) \<and>
    (case getRecords_groups_next data groupsResponse rv of
       Inr st' \<Rightarrow>
         prefix (arrays rv) (arrays st') \<and>
         records st' \<noteq> records rv \<and> records st' \<noteq> filteredRecords rv \<and>
         filteredRecords st' \<noteq> filteredRecords rv \<and> filteredRecords st' \<noteq> records rv \<and>
         records st' \<noteq> filteredRecords st' \<and>
         length (arrays st' ! records st') = length (getRecords_envelope data) \<and>
         arrays st' ! filteredRecords st' = arrays st' ! records st'
     | Inl e \<Rightarrow>
         e = TypeError \<and>
         (list_ex nullish (getRecords_envelope data) \<or>
          list_ex nullish (getRecords_groups_envelope groupsResponse)))"
proof -
  note b = wf_bounds [OF assms(1)]
  define sc where "sc = cart_subscriber cartItems st"
  note c = cart_subscriber_props [OF assms(1) sc_def]
  have c1: "records sc = records st \<and> prefix (arrays st) (arrays sc) \<and>
        filteredRecords sc \<noteq> filteredRecords st \<and> filteredRecords sc \<noteq> records st \<and>
        arrays sc ! filteredRecords sc = arrays st ! records st"
    using c(1) c(2) c(3) c(4) b by simp
  have c2: "\<forall>r\<in>set (arrays st ! records st).
           cells sc ! r
             = (cells st ! r)
                 \<lparr>inCart := Val (\<exists>item\<in>set cartItems. item_idRecord item = idRecord (cells st ! r)),
                  amount := Val (case find (\<lambda>item. item_idRecord item = idRecord (cells st ! r)) cartItems of
                                   Some item \<Rightarrow> or_num (item_amount item) 0 | None \<Rightarrow> 0)\<rparr>"
    using c(5) by (simp only: cart_update_fields)
  have cart: "records sc = records st \<and> prefix (arrays st) (arrays sc) \<and>
        filteredRecords sc \<noteq> filteredRecords st \<and> filteredRecords sc \<noteq> records st \<and>
        arrays sc ! filteredRecords sc = arrays st ! records st \<and>
        (\<forall>r\<in>set (arrays st ! records st).
           cells sc ! r
             = (cells st ! r)
                 \<lparr>inCart := Val (\<exists>item\<in>set cartItems. item_idRecord item = idRecord (cells st ! r)),
                  amount := Val (case find (\<lambda>item. item_idRecord item = idRecord (cells st ! r)) cartItems of
                                   Some item \<Rightarrow> or_num (item_amount item) 0 | None \<Rightarrow> 0)\<rparr>) \<and>
        (\<forall>r<length (cells st). r \<notin> set (arrays st ! records st) \<longrightarrow> cells sc ! r = cells st ! r)"
    using c1 c2 c(6) by blast
  define ss where "ss = stockUpdate_subscriber (Some u) st"
  note s = stockUpdate_subscriber_props [OF assms(1) ss_def refl refl]
  have stock: "prefix (arrays st) (arrays ss) \<and>
        records ss \<noteq> records st \<and> records ss \<noteq> filteredRecords st \<and>
        filteredRecords ss \<noteq> filteredRecords st \<and> filteredRecords ss \<noteq> records st"
    using s(1) s(2) s(3) b by simp
  have search: "prefix (arrays st) (arrays (filterRecords st)) \<and>
        records (filterRecords st) = records st \<and>
        filteredRecords (filterRecords st) \<noteq> filteredRecords st \<and>
        filteredRecords (filterRecords st) \<noteq> records st"
    using b by (simp add: filterRecords_props)
  note br = wf_bounds [OF assms(2)]
  have inst: "\<And>rs. prefix (arrays rv) (arrays (install rs rv)) \<and>
        records (install rs rv) \<noteq> records rv \<and> records (install rs rv) \<noteq> filteredRecords rv \<and>
        filteredRecords (install rs rv) \<noteq> filteredRecords rv \<and>
        filteredRecords (install rs rv) \<noteq> records rv \<and>
        records (install rs rv) \<noteq> filteredRecords (install rs rv)"
    using br by (simp add: install_def Let_def)
  define se where "se = getRecords_groups_error data err rv"
  have se: "se = controlError err (install (getRecords_envelope data) rv)"
    by (simp add: se_def getRecords_groups_error_def)
  have e1: "prefix (arrays rv) (arrays se) \<and>
        records se \<noteq> records rv \<and> records se \<noteq> filteredRecords rv \<and>
        filteredRecords se \<noteq> filteredRecords rv \<and> filteredRecords se \<noteq> records rv \<and>
        records se \<noteq> filteredRecords se"
    using inst [of "getRecords_envelope data"] by (simp add: se controlError_simps)
  have e2: "map (\<lambda>r. cells se ! r) (arrays se ! records se) = getRecords_envelope data"
    unfolding se controlError_simps by (rule install_contents(1))
  have e3: "map (\<lambda>r. cells se ! r) (arrays se ! filteredRecords se) = getRecords_envelope data"
    unfolding se controlError_simps by (rule install_contents(2))
  have loaderr: "prefix (arrays rv) (arrays se) \<and>
        records se \<noteq> records rv \<and> records se \<noteq> filteredRecords rv \<and>
        filteredRecords se \<noteq> filteredRecords rv \<and> filteredRecords se \<noteq> records rv \<and>
        records se \<noteq> filteredRecords se \<and>
        map (\<lambda>r. cells se ! r) (arrays se ! records se) = getRecords_envelope data \<and>
        map (\<lambda>r. cells se ! r) (arrays se ! filteredRecords se) = getRecords_envelope data"
    using e1 e2 e3 by blast
  have load: "case getRecords_groups_next data groupsResponse rv of
       Inr st' \<Rightarrow>
         prefix (arrays rv) (arrays st') \<and>
         records st' \<noteq> records rv \<and> records st' \<noteq> filteredRecords rv \<and>
         filteredRecords st' \<noteq> filteredRecords rv \<and> filteredRecords st' \<noteq> records rv \<and>
         records st' \<noteq> filteredRecords st' \<and>
         length (arrays st' ! records st') = length (getRecords_envelope data) \<and>
         arrays st' ! filteredRecords st' = arrays st' ! records st'
     | Inl e \<Rightarrow>
         e = TypeError \<and>
         (list_ex nullish (getRecords_envelope data) \<or>
          list_ex nullish (getRecords_groups_envelope groupsResponse))"
  proof (cases "map_processRecord (getRecords_groups_envelope groupsResponse) (getRecords_envelope data)")
    case (Inl e)
    with map_processRecord_result [where gs = "getRecords_groups_envelope groupsResponse"
        and rs = "getRecords_envelope data"]
    show ?thesis by (simp add: getRecords_groups_next_def)
  next
    case (Inr out)
    with map_processRecord_result [where gs = "getRecords_groups_envelope groupsResponse"
        and rs = "getRecords_envelope data"]
    have l: "length out = length (getRecords_envelope data)" by simp
    have g: "getRecords_groups_next data groupsResponse rv = Inr (install out rv)"
      by (simp add: getRecords_groups_next_def Inr)
    have a: "length (arrays (install out rv) ! records (install out rv)) = length (getRecords_envelope data)"
      unfolding install_simps(5) using l by simp
    have b: "arrays (install out rv) ! filteredRecords (install out rv)
        = arrays (install out rv) ! records (install out rv)"
      unfolding install_simps(5) install_simps(6) ..
    show ?thesis unfolding g using inst [of out] a b by simp
  qed
  show ?thesis
    unfolding Let_def sc_def [symmetric] ss_def [symmetric] se_def [symmetric]
    using cart stock search loaderr load by blast
qed

text \<open>
  The theorem of claim C5 at the example view, for a cart that holds three of record 8, and
  at the initial view for a load of one record with its group: on the success of the group
  fetch the record built carries the group's name, on its failure the record is installed as
  the service delivered it.
\<close>

theorem list_mutations_witness:
  "wf example_view \<and> wf (initial :: jsval component) \<and>
   records (cart_subscriber [CartItem (Val 8) (Val 3)] example_view) = records example_view \<and>
   filteredRecords (cart_subscriber [CartItem (Val 8) (Val 3)] example_view) = 2 \<and>
   arrays example_view ! records example_view = [0, 1] \<and>
   inCart (cells (cart_subscriber [CartItem (Val 8) (Val 3)] example_view) ! 0) = Val False \<and>
   amount (cells (cart_subscriber [CartItem (Val 8) (Val 3)] example_view) ! 0) = Val 0 \<and>
   inCart (cells (cart_subscriber [CartItem (Val 8) (Val 3)] example_view) ! 1) = Val True \<and>
   amount (cells (cart_subscriber [CartItem (Val 8) (Val 3)] example_view) ! 1) = Val 3 \<and>
   getRecords_groups_next (snd (RecordsService_getRecords (Inr example_response))) example_groups initial
     = Inr (install [example_processed] initial) \<and>
   records (install [example_processed] initial) = 2 \<and>
   filteredRecords (install [example_processed] initial) = 3 \<and>
   arrays (install [example_processed] initial) ! 2 = [0] \<and>
   arrays (install [example_processed] initial) ! 3 = [0] \<and>
   cells (install [example_processed] initial) ! 0 = example_processed \<and>
   getRecords_envelope (snd (RecordsService_getRecords (Inr example_response)))
     = [JObj [(''idRecord'', JNum 7), (''titleRecord'', JStr ''Abbey Road''), (''stock'', JNum 3),
              (''groupId'', JNum 2), (''groupName'', JStr ''Rock'')]] \<and>
   cells (getRecords_groups_error (snd (RecordsService_getRecords (Inr example_response)))
            example_error initial)
     = [JObj [(''idRecord'', JNum 7), (''titleRecord'', JStr ''Abbey Road''), (''stock'', JNum 3),
              (''groupId'', JNum 2), (''groupName'', JStr ''Rock'')]]"
proof -
  have w: "wf example_view" by (simp add: wf_def example_view_def)
  have wr: "wf (initial :: jsval component)" by (simp add: wf_def initial_def)
  have d: "snd (RecordsService_getRecords (Inr example_response))
      = JArr [JObj [(''idRecord'', JNum 7), (''titleRecord'', JStr ''Abbey Road''), (''stock'', JNum 3),
              (''groupId'', JNum 2), (''groupName'', JStr ''Rock'')]]"
    by (simp add: RecordsService_getRecords_def RecordsService_envelope_def example_response_def
        getRecords_tap_def Let_def)
  have n: "getRecords_groups_next (snd (RecordsService_getRecords (Inr example_response)))
      example_groups initial = Inr (install [example_processed] initial)"
    unfolding d
    by (simp add: getRecords_groups_next_def getRecords_envelope_def getRecords_groups_envelope_def
        example_groups_def processRecord_def processedRecord_literal_def js_or_def Let_def
        example_processed_def)
  show ?thesis
    using list_mutations_install_new_arrays [OF w wr,
        where cartItems = "[CartItem (Val 8) (Val 3)]"
          and data = "snd (RecordsService_getRecords (Inr example_response))"
          and groupsResponse = example_groups and err = example_error] w wr
    unfolding n
    by (simp add: Let_def cart_subscriber_def republish_def example_view_def emptyRecord_def
        cart_update_def d getRecords_envelope_def getRecords_groups_error_def install_def
        initial_def controlError_def)
qed

text \<open>
  Claim C5 as stated fails on the example view and a cart that holds three of record 8: after
  the snapshot the base list is the same reference as before, its array is the one it was, and
  the second record object has been written in place; only the filtered list is a new
  reference.
\<close>

theorem cart_snapshot_keeps_base_list_counterexample:
  "records (cart_subscriber [CartItem (Val 8) (Val 3)] example_view) = records example_view \<and>
   filteredRecords (cart_subscriber [CartItem (Val 8) (Val 3)] example_view)
     \<noteq> filteredRecords example_view \<and>
   arrays (cart_subscriber [CartItem (Val 8) (Val 3)] example_view) ! records example_view
     = arrays example_view ! records example_view \<and>
   amount (cells example_view ! 1) = Undefined \<and>
   amount (cells (cart_subscriber [CartItem (Val 8) (Val 3)] example_view) ! 1) = Val 3"
  by (simp add: cart_subscriber_def republish_def example_view_def emptyRecord_def cart_update_def)

section \<open>A failed fetch of the record list\<close>

text \<open>
  Claim C4 at a fetch of the record list that fails with a transport error. The service turns
  the error into the emission of an empty array, so the \<^verbatim>\<open>next\<close> handler of the component runs
  and asks for the groups; when these arrive, an empty list is installed and neither
  \<^verbatim>\<open>visibleError\<close> nor \<^verbatim>\<open>errorMessage\<close> is assigned: on the initial view the flag is still false
  and the message still empty. The \<^verbatim>\<open>error\<close> handler of the component, which would set the flag
  and the message, is the one that never runs. When only the group fetch fails, the records
  extracted are installed as they are (the example record keeps the group name \<^verbatim>\<open>Rock\<close> it
  arrived with), the message is set, and the flag is left as it was.
\<close>

theorem load_swallows_record_error:
  "RecordsService_getRecords (Inl err) = ([], JArr []) \<and>
   getRecords_next (snd (RecordsService_getRecords (Inl err))) = ([GroupsService_getGroups_call], None) \<and>
   getRecords_groups_next (snd (RecordsService_getRecords (Inl err))) groupsResponse st
     = Inr (install [] st) \<and>
   visibleError (install [] st) = visibleError st \<and>
   errorMessage (install [] st) = errorMessage st \<and>
   arrays (install [] st) ! records (install [] st) = [] \<and>
   visibleError (install [] (initial :: jsval component)) = False \<and>
   errorMessage (install [] (initial :: jsval component)) = [] \<and>
   visibleError (getRecords_error err st) = True \<and>
   errorMessage (getRecords_error err st) = controlError_message err \<and>
   visibleError (getRecords_groups_error data err st) = visibleError st \<and>
   errorMessage (getRecords_groups_error data err st) = controlError_message err \<and>
   map (\<lambda>r. cells (getRecords_groups_error data err st) ! r)
       (arrays (getRecords_groups_error data err st) ! records (getRecords_groups_error data err st))
     = getRecords_envelope data \<and>
   peek_prop (cells (getRecords_groups_error (snd (RecordsService_getRecords (Inr example_response)))
                example_error initial) ! 0) ''groupName'' = JStr ''Rock''"
proof -
  have a: "RecordsService_getRecords (Inl err) = ([], JArr [])"
    by (simp add: RecordsService_getRecords_def)
  have b: "getRecords_next (JArr []) = ([GroupsService_getGroups_call], None)"
    by (simp add: getRecords_next_def getRecords_envelope_def)
  have c: "getRecords_groups_next (JArr []) groupsResponse st = Inr (install [] st)"
    by (simp add: getRecords_groups_next_def getRecords_envelope_def)
  have e: "visibleError (install [] st) = visibleError st \<and>
      errorMessage (install [] st) = errorMessage st \<and>
      arrays (install [] st) ! records (install [] st) = []"
    by (simp add: install_def nth_append)
  have i: "visibleError (install [] (initial :: jsval component)) = False \<and>
      errorMessage (install [] (initial :: jsval component)) = []"
    by (simp add: install_def initial_def)
  have f: "visibleError (getRecords_error err st) = True \<and>
      errorMessage (getRecords_error err st) = controlError_message err"
    by (simp add: getRecords_error_def controlError_def)
  have g: "visibleError (getRecords_groups_error data err st) = visibleError st \<and>
      errorMessage (getRecords_groups_error data err st) = controlError_message err"
    by (simp add: getRecords_groups_error_def controlError_simps install_simps)
  have h: "map (\<lambda>r. cells (getRecords_groups_error data err st) ! r)
       (arrays (getRecords_groups_error data err st) ! records (getRecords_groups_error data err st))
     = getRecords_envelope data"
    unfolding getRecords_groups_error_def controlError_simps by (rule install_contents(1))
  have j: "peek_prop (cells (getRecords_groups_error (snd (RecordsService_getRecords (Inr example_response)))
                example_error initial) ! 0) ''groupName'' = JStr ''Rock''"
    by (simp add: RecordsService_getRecords_def RecordsService_envelope_def example_response_def
        getRecords_tap_def Let_def getRecords_envelope_def getRecords_groups_error_def install_def
        initial_def controlError_def)
  show ?thesis using a b c e i f g h j by simp
qed

end
